theory Spec2Isabelle
  imports Complex_Main
begin

section \<open>Characters and Python string operations\<close>

text \<open>
  A Python \<open>str\<close> is modelled as a \<open>string\<close>, one \<open>char\<close> per code point. The character
  classes below are the ones Python uses on ASCII text: \<open>str.isspace\<close> (also used by
  \<open>strip()\<close>, \<open>split()\<close> and the regex class \<open>\s\<close>) holds for the code points 9-13 and
  28-32, \<open>\d\<close> for the ten digits, \<open>\w\<close> for letters, digits and the underscore, and
  \<open>lower()\<close> maps \<open>A-Z\<close> to \<open>a-z\<close>.
\<close>

definition is_space :: "char \<Rightarrow> bool" where
  "is_space c = (let n = (of_char c :: nat) in (9 \<le> n \<and> n \<le> 13) \<or> (28 \<le> n \<and> n \<le> 32))"

definition is_digit :: "char \<Rightarrow> bool" where
  "is_digit c = (let n = (of_char c :: nat) in 48 \<le> n \<and> n \<le> 57)"

definition is_upper :: "char \<Rightarrow> bool" where
  "is_upper c = (let n = (of_char c :: nat) in 65 \<le> n \<and> n \<le> 90)"

definition is_lower :: "char \<Rightarrow> bool" where
  "is_lower c = (let n = (of_char c :: nat) in 97 \<le> n \<and> n \<le> 122)"

definition is_word :: "char \<Rightarrow> bool" where
  "is_word c = (is_digit c \<or> is_upper c \<or> is_lower c \<or> c = CHR ''_'')"

definition lower_char :: "char \<Rightarrow> char" where
  "lower_char c = (if is_upper c then char_of ((of_char c :: nat) + 32) else c)"

definition py_lower :: "string \<Rightarrow> string" where
  "py_lower s = map lower_char s"

definition dq :: char where
  "dq = CHR 0x22"

definition sq :: char where
  "sq = CHR 0x27"

definition newline :: char where
  "newline = CHR 0x0A"

text \<open>\<open>s.strip()\<close>, \<open>s.lstrip(chars)\<close> and \<open>s.strip(chars)\<close>.\<close>

definition py_strip :: "string \<Rightarrow> string" where
  "py_strip s = rev (dropWhile is_space (rev (dropWhile is_space s)))"

definition py_lstrip_chars :: "string \<Rightarrow> string \<Rightarrow> string" where
  "py_lstrip_chars cs s = dropWhile (\<lambda>c. c \<in> set cs) s"

definition py_strip_chars :: "string \<Rightarrow> string \<Rightarrow> string" where
  "py_strip_chars cs s =
     rev (dropWhile (\<lambda>c. c \<in> set cs) (rev (dropWhile (\<lambda>c. c \<in> set cs) s)))"

text \<open>\<open>s.startswith(p)\<close> and the substring test \<open>k in s\<close>.\<close>

fun startswith :: "string \<Rightarrow> string \<Rightarrow> bool" where
  "startswith s [] = True"
| "startswith [] (p # ps) = False"
| "startswith (c # s) (p # ps) = (c = p \<and> startswith s ps)"

fun py_in :: "string \<Rightarrow> string \<Rightarrow> bool" where
  "py_in k [] = (k = [])"
| "py_in k (c # s) = (startswith (c # s) k \<or> py_in k s)"

text \<open>\<open>s.split()\<close>: the maximal runs of non-whitespace characters, in order.\<close>

fun split_ws :: "string \<Rightarrow> string \<Rightarrow> string list" where
  "split_ws cur [] = (if cur = [] then [] else [cur])"
| "split_ws cur (c # s) =
     (if is_space c then (if cur = [] then split_ws [] s else cur # split_ws [] s)
      else split_ws (cur @ [c]) s)"

definition py_split :: "string \<Rightarrow> string list" where
  "py_split s = split_ws [] s"

text \<open>\<open>s.split(',')\<close>: split at every occurrence of one separator character.\<close>

fun split_chr :: "char \<Rightarrow> string \<Rightarrow> string \<Rightarrow> string list" where
  "split_chr sep cur [] = [cur]"
| "split_chr sep cur (c # s) =
     (if c = sep then cur # split_chr sep [] s else split_chr sep (cur @ [c]) s)"

definition py_split_on :: "char \<Rightarrow> string \<Rightarrow> string list" where
  "py_split_on sep s = split_chr sep [] s"

text \<open>\<open>s.split(sep, 1)\<close>: split at the first occurrence of a non-empty separator string.\<close>

fun split_first :: "string \<Rightarrow> string \<Rightarrow> string \<Rightarrow> string list" where
  "split_first sep cur [] = [cur]"
| "split_first sep cur (c # s) =
     (if startswith (c # s) sep then [cur, drop (length sep) (c # s)]
      else split_first sep (cur @ [c]) s)"

definition py_split1 :: "string \<Rightarrow> string \<Rightarrow> string list" where
  "py_split1 sep s = split_first sep [] s"

text \<open>\<open>sep.join(xs)\<close>.\<close>

fun py_join :: "string \<Rightarrow> string list \<Rightarrow> string" where
  "py_join sep [] = []"
| "py_join sep [x] = x"
| "py_join sep (x # y # ys) = x @ sep @ py_join sep (y # ys)"

text \<open>Exceptions the modelled code can raise, and \<open>xs[0]\<close>, \<open>int(s)\<close>.\<close>

datatype py_error = IndexError string | KeyError string | ZeroDivisionError | ValueError string
  | TypeError string | AttributeError string string

text \<open>\<open>str(e)\<close> of a caught exception.\<close>

fun str_of_error :: "py_error \<Rightarrow> string" where
  "str_of_error (IndexError kind) = kind @ '' index out of range''"
| "str_of_error ZeroDivisionError = ''division by zero''"
| "str_of_error (ValueError s) = ''invalid literal for int() with base 10: '' @ [sq] @ s @ [sq]"
| "str_of_error (KeyError k) = [sq] @ k @ [sq]"
| "str_of_error (TypeError msg) = msg"
| "str_of_error (AttributeError ty attr) =
     [sq] @ ty @ [sq] @ '' object has no attribute '' @ [sq] @ attr @ [sq]"

definition first_item :: "'a list \<Rightarrow> py_error + 'a" where
  "first_item xs = (case xs of [] \<Rightarrow> Inl (IndexError ''list'') | x # _ \<Rightarrow> Inr x)"

definition digit_val :: "char \<Rightarrow> int" where
  "digit_val c = int (of_char c) - 48"

definition int_of_digits :: "string \<Rightarrow> int" where
  "int_of_digits s = foldl (\<lambda>acc c. 10 * acc + digit_val c) 0 s"

text \<open>
  \<open>int(s)\<close> on a string: surrounding whitespace is ignored, one sign is allowed, and the
  rest has to be digits, where single underscores may separate digits.
\<close>

fun digits_ok :: "bool \<Rightarrow> string \<Rightarrow> bool" where
  "digits_ok after_digit [] = after_digit"
| "digits_ok after_digit (c # s) =
     (if is_digit c then digits_ok True s
      else if c = CHR ''_'' \<and> after_digit then s \<noteq> [] \<and> is_digit (hd s) \<and> digits_ok False s
      else False)"

definition py_int :: "string \<Rightarrow> py_error + int" where
  "py_int s =
     (let t = py_strip s;
          (neg, ds) = (case t of [] \<Rightarrow> (False, [])
                       | c # r \<Rightarrow> if c = CHR ''-'' then (True, r)
                                 else if c = CHR ''+'' then (False, r) else (False, t));
          v = int_of_digits (filter is_digit ds)
      in if digits_ok False ds then Inr (if neg then - v else v) else Inl (ValueError s))"

definition bindE :: "'e + 'a \<Rightarrow> ('a \<Rightarrow> 'e + 'b) \<Rightarrow> 'e + 'b" where
  "bindE m f = (case m of Inl e \<Rightarrow> Inl e | Inr x \<Rightarrow> f x)"

section \<open>Regular expressions as Python's \<open>re\<close> evaluates them\<close>

text \<open>
  The patterns of the two command tables use literals, character classes, sequence,
  alternation, the greedy operators \<open>?\<close>, \<open>+\<close>, \<open>*\<close>, capturing groups and the end anchor.
  The matcher is a backtracking one: it returns every way to match, in the order in which
  Python's engine tries them (greedy first, left alternative first), each with the rest of
  the input and the groups captured so far. A non-capturing group \<open>(?:...)\<close> is only
  structure. \<open>re.match\<close> tries the pattern at the start of the string only, where the
  anchor \<open>^\<close> holds, so \<open>^\<close> has no constructor.
\<close>

datatype cls = AnyChar | WordChar | SpaceChar | DigitChar | NonSpace
  | OneOf string | NoneOf string

datatype regex =
    Lit char
  | Cls cls
  | Eps
  | Eol
  | Seq regex regex
  | Alt regex regex
  | Opt regex
  | Plus regex
  | Star regex
  | Grp nat regex

text \<open>Under \<open>re.IGNORECASE\<close> (the flag \<open>ic\<close>) letters match in either case.\<close>

definition lit_eq :: "bool \<Rightarrow> char \<Rightarrow> char \<Rightarrow> bool" where
  "lit_eq ic c ch = (if ic then lower_char ch = lower_char c else ch = c)"

fun cls_mem :: "bool \<Rightarrow> cls \<Rightarrow> char \<Rightarrow> bool" where
  "cls_mem ic AnyChar ch = (ch \<noteq> newline)"
| "cls_mem ic WordChar ch = is_word ch"
| "cls_mem ic SpaceChar ch = is_space ch"
| "cls_mem ic DigitChar ch = is_digit ch"
| "cls_mem ic NonSpace ch = (\<not> is_space ch)"
| "cls_mem ic (OneOf cs) ch = (\<exists>c \<in> set cs. lit_eq ic c ch)"
| "cls_mem ic (NoneOf cs) ch = (\<not> (\<exists>c \<in> set cs. lit_eq ic c ch))"

type_synonym mstate = "string \<times> string option list"

definition step :: "(char \<Rightarrow> bool) \<Rightarrow> mstate \<Rightarrow> mstate list" where
  "step p st = (case fst st of [] \<Rightarrow> [] | ch # t \<Rightarrow> if p ch then [(t, snd st)] else [])"

text \<open>
  Greedy repetition of a matcher \<open>f\<close>: one more round first (only rounds that consume
  input are repeated), then stopping here.
\<close>

function rx_star :: "(mstate \<Rightarrow> mstate list) \<Rightarrow> mstate \<Rightarrow> mstate list" where
  "rx_star f st =
     concat (map (rx_star f) (filter (\<lambda>st'. length (fst st') < length (fst st)) (f st))) @ [st]"
  by pat_completeness auto
termination
  by (relation "measure (\<lambda>(f, st). length (fst st))") auto

declare rx_star.simps [simp del]

definition set_group :: "nat \<Rightarrow> mstate \<Rightarrow> mstate \<Rightarrow> mstate" where
  "set_group k st st' =
     (fst st', (snd st')[k - 1 := Some (take (length (fst st) - length (fst st')) (fst st))])"

primrec rx :: "bool \<Rightarrow> regex \<Rightarrow> mstate \<Rightarrow> mstate list" where
  "rx ic (Lit c) st = step (lit_eq ic c) st"
| "rx ic (Cls k) st = step (cls_mem ic k) st"
| "rx ic Eps st = [st]"
| "rx ic Eol st = (if fst st = [] \<or> fst st = [newline] then [st] else [])"
| "rx ic (Seq a b) st = concat (map (rx ic b) (rx ic a st))"
| "rx ic (Alt a b) st = rx ic a st @ rx ic b st"
| "rx ic (Opt a) st = rx ic a st @ [st]"
| "rx ic (Plus a) st = concat (map (rx_star (rx ic a)) (rx ic a st))"
| "rx ic (Star a) st = rx_star (rx ic a) st"
| "rx ic (Grp k a) st = map (set_group k st) (rx ic a st)"

primrec ngroups :: "regex \<Rightarrow> nat" where
  "ngroups (Lit c) = 0"
| "ngroups (Cls k) = 0"
| "ngroups Eps = 0"
| "ngroups Eol = 0"
| "ngroups (Seq a b) = max (ngroups a) (ngroups b)"
| "ngroups (Alt a b) = max (ngroups a) (ngroups b)"
| "ngroups (Opt a) = ngroups a"
| "ngroups (Plus a) = ngroups a"
| "ngroups (Star a) = ngroups a"
| "ngroups (Grp k a) = max k (ngroups a)"

text \<open>
  \<open>re.match(pattern, s).groups()\<close>: the groups of the first way to match at the start of
  \<open>s\<close>, or \<open>None\<close>. \<open>re.search\<close> tries every start position from left to right.
\<close>

definition re_match :: "bool \<Rightarrow> regex \<Rightarrow> string \<Rightarrow> string option list option" where
  "re_match ic r s =
     (case rx ic r (s, replicate (ngroups r) None) of [] \<Rightarrow> None | st # _ \<Rightarrow> Some (snd st))"

fun re_search :: "bool \<Rightarrow> regex \<Rightarrow> string \<Rightarrow> string option list option" where
  "re_search ic r [] = re_match ic r []"
| "re_search ic r (c # s) =
     (case re_match ic r (c # s) of Some g \<Rightarrow> Some g | None \<Rightarrow> re_search ic r s)"

text \<open>Writing patterns: a literal word, and a sequence of parts.\<close>

definition lits :: "string \<Rightarrow> regex" where
  "lits s = foldr (\<lambda>c r. Seq (Lit c) r) s Eps"

definition seqs :: "regex list \<Rightarrow> regex" where
  "seqs rs = foldr Seq rs Eps"





section \<open>Python values and dictionaries\<close>

text \<open>
  The servers exchange dictionaries whose values are strings, booleans, numbers, \<open>None\<close>,
  lists and nested dictionaries. A dictionary keeps its keys in insertion order, so it is
  an association list; assigning to an existing key keeps the key's place. The scores,
  Python floats that are sums and quotients of small numbers, are held as exact rationals.
\<close>

datatype pyval = PNone | PBool bool | PInt int | PFloat rat | PStr string
  | PList "pyval list" | PDict "(string \<times> pyval) list"

type_synonym dict = "(string \<times> pyval) list"

fun dict_set :: "dict \<Rightarrow> string \<Rightarrow> pyval \<Rightarrow> dict" where
  "dict_set [] k v = [(k, v)]"
| "dict_set ((k', v') # d) k v = (if k' = k then (k, v) # d else (k', v') # dict_set d k v)"

definition dict_get_default :: "dict \<Rightarrow> string \<Rightarrow> pyval \<Rightarrow> pyval" where
  "dict_get_default d k dflt = (case map_of d k of None \<Rightarrow> dflt | Some v \<Rightarrow> v)"

definition dict_get :: "dict \<Rightarrow> string \<Rightarrow> pyval" where
  "dict_get d k = dict_get_default d k PNone"

fun truthy :: "pyval \<Rightarrow> bool" where
  "truthy PNone = False"
| "truthy (PBool b) = b"
| "truthy (PInt i) = (i \<noteq> 0)"
| "truthy (PFloat q) = (q \<noteq> 0)"
| "truthy (PStr s) = (s \<noteq> [])"
| "truthy (PList xs) = (xs \<noteq> [])"
| "truthy (PDict d) = (d \<noteq> [])"

text \<open>A capture group is a string, or \<open>None\<close> when the group took no part in the match.\<close>

fun opt_str :: "string option \<Rightarrow> pyval" where
  "opt_str None = PNone"
| "opt_str (Some s) = PStr s"

text \<open>\<open>g if g else dflt\<close> on a capture group \<open>g\<close>.\<close>

fun or_else :: "string option \<Rightarrow> pyval \<Rightarrow> pyval" where
  "or_else None dflt = dflt"
| "or_else (Some s) dflt = (if s \<noteq> [] then PStr s else dflt)"

text \<open>
  \<open>str(v)\<close> as the f-strings of the validators use it. The parameter values that the
  parsers produce are strings and \<open>None\<close>; on those, and on booleans, it is Python's.
\<close>

fun py_str :: "pyval \<Rightarrow> string" where
  "py_str (PStr s) = s"
| "py_str PNone = ''None''"
| "py_str (PBool b) = (if b then ''True'' else ''False'')"
| "py_str v = ''?''"

fun type_name :: "pyval \<Rightarrow> string" where
  "type_name PNone = ''NoneType''"
| "type_name (PBool b) = ''bool''"
| "type_name (PInt i) = ''int''"
| "type_name (PFloat q) = ''float''"
| "type_name (PStr s) = ''str''"
| "type_name (PList xs) = ''list''"
| "type_name (PDict d) = ''dict''"

text \<open>
  Reading \<open>groups[0] .. groups[n - 1]\<close> of a tuple with fewer than \<open>n\<close> entries raises
  \<open>IndexError\<close>.
\<close>

definition need :: "nat \<Rightarrow> 'a list \<Rightarrow> 'b \<Rightarrow> py_error + 'b" where
  "need n groups body = (if length groups < n then Inl (IndexError ''tuple'') else Inr body)"

section \<open>The command servers\<close>

text \<open>
  A server object holds its pattern table, its help table and the allowed values of the
  enumerated parameters; the methods read them through \<open>self\<close>.
\<close>

record server =
  command_patterns :: "(string \<times> regex) list"
  command_descriptions :: "(string \<times> string) list"
  valid_values :: "(string \<times> string list) list"

text \<open>Abbreviations for the recurring parts of the patterns.\<close>

definition sp :: regex where
  "sp = Plus (Cls SpaceChar)"

definition hy :: regex where
  "hy = Opt (Cls (OneOf ''-_''))"

definition quoted :: "nat \<Rightarrow> regex" where
  "quoted k = seqs [Lit dq, Grp k (Plus (Cls (NoneOf [dq]))), Lit dq]"

definition word :: "nat \<Rightarrow> regex" where
  "word k = Grp k (Plus (Cls WordChar))"

definition rest :: "nat \<Rightarrow> regex" where
  "rest k = Grp k (Plus (Cls AnyChar))"

definition digits :: "nat \<Rightarrow> regex" where
  "digits k = Grp k (Plus (Cls DigitChar))"

definition quadrant :: "nat \<Rightarrow> regex" where
  "quadrant k = Grp k (seqs [Plus (Cls WordChar), Cls (OneOf ''-_''), Plus (Cls WordChar)])"

text \<open>\<open>cmd2 a b\<close> is the head \<open>/a[-_]?b\<close> of a pattern.\<close>

definition cmd2 :: "string \<Rightarrow> string \<Rightarrow> regex" where
  "cmd2 a b = seqs [Lit CHR ''/'', lits a, hy, lits b]"

definition name2 :: "string \<Rightarrow> string \<Rightarrow> regex" where
  "name2 a b = seqs [lits a, hy, lits b]"

subsection \<open>The workflow command server\<close>

definition wf_command_patterns :: "(string \<times> regex) list" where
  "wf_command_patterns = [
    (''node-create'', seqs [cmd2 ''node'' ''create'', sp, word 1,
        Opt (seqs [sp, Alt (quoted 2) (word 3)]),
        Opt (seqs [sp, digits 4, Lit CHR '','', digits 5]), Eol]),
    (''node-delete'', seqs [Lit CHR ''/'',
        Alt (name2 ''node'' ''delete'') (Alt (name2 ''delete'' ''node'') (name2 ''remove'' ''node'')),
        sp, rest 1, Eol]),
    (''node-rename'', seqs [cmd2 ''node'' ''rename'', sp, quoted 1, sp, quoted 2, Eol]),
    (''node-move'', seqs [cmd2 ''node'' ''move'', sp, rest 1, sp, digits 2, Lit CHR '','',
        digits 3, Eol]),
    (''node-type'', seqs [cmd2 ''node'' ''type'', sp, rest 1, sp, word 2, Eol]),
    (''task-create'', seqs [Lit CHR ''/'',
        Alt (name2 ''task'' ''create'') (Alt (name2 ''add'' ''task'') (name2 ''create'' ''task'')),
        sp, quoted 1, Opt (seqs [sp, quoted 2]), Opt (seqs [sp, word 3]), Eol]),
    (''task-delete'', seqs [cmd2 ''task'' ''delete'', sp, rest 1, Eol]),
    (''task-move'', seqs [cmd2 ''task'' ''move'', sp, rest 1, sp, quoted 2, Eol]),
    (''task-advance'', seqs [cmd2 ''task'' ''advance'', sp, rest 1, sp, quoted 2, Eol]),
    (''task-priority'', seqs [cmd2 ''task'' ''priority'', sp, rest 1, sp, word 2, Eol]),
    (''flowline-create'', seqs [Lit CHR ''/'',
        Alt (name2 ''flowline'' ''create'') (lits ''connect''),
        sp, quoted 1, sp, quoted 2, Opt (seqs [sp, word 3]), Eol]),
    (''flowline-delete'', seqs [Lit CHR ''/'',
        Alt (name2 ''flowline'' ''delete'') (lits ''disconnect''),
        sp, quoted 1, sp, quoted 2, Eol]),
    (''flowline-type'', seqs [cmd2 ''flowline'' ''type'', sp, quoted 1, sp, quoted 2, sp,
        word 3, Eol]),
    (''disconnect-all'', seqs [lits ''/disconnect'', sp, lits ''all'', Eol]),
    (''tag-create'', seqs [cmd2 ''tag'' ''create'', sp, quoted 1, Opt (seqs [sp, word 2]),
        Opt (seqs [sp, rest 3]), Eol]),
    (''tag-add'', seqs [cmd2 ''tag'' ''add'', sp, quoted 1, sp, rest 2, Eol]),
    (''tag-remove'', seqs [cmd2 ''tag'' ''remove'', sp, quoted 1, sp, rest 2, Eol]),
    (''tag-list'', seqs [cmd2 ''tag'' ''list'', Opt (seqs [sp, rest 1]), Eol]),
    (''workflow-save'', seqs [cmd2 ''workflow'' ''save'', Opt (seqs [sp, quoted 1]), Eol]),
    (''workflow-load'', seqs [cmd2 ''workflow'' ''load'', sp, quoted 1, Eol]),
    (''workflow-export'', seqs [cmd2 ''workflow'' ''export'', Opt (seqs [sp, word 1]), Eol]),
    (''workflow-clear'', seqs [lits ''/workflow'', hy, Alt (lits ''clear'') (lits ''reset''),
        Opt (seqs [sp, Grp 1 (Alt (lits ''yes'') (lits ''confirm''))]), Eol]),
    (''workflow-status'', seqs [cmd2 ''workflow'' ''status'', Eol]),
    (''workflow-stats'', seqs [cmd2 ''workflow'' ''stats'', Eol]),
    (''matrix-enter'', seqs [cmd2 ''matrix'' ''enter'', Eol]),
    (''matrix-exit'', seqs [cmd2 ''matrix'' ''exit'', Eol]),
    (''matrix-move'', seqs [cmd2 ''matrix'' ''move'', sp, rest 1, sp, quadrant 2, Eol]),
    (''matrix-show'', seqs [cmd2 ''matrix'' ''show'', Opt (seqs [sp, quadrant 1]), Eol]),
    (''view-zoom'', seqs [cmd2 ''view'' ''zoom'', sp, rest 1, Eol]),
    (''view-center'', seqs [cmd2 ''view'' ''center'', Opt (seqs [sp, quoted 1]), Eol]),
    (''view-focus'', seqs [cmd2 ''view'' ''focus'', sp, rest 1, Eol]),
    (''select'', seqs [lits ''/select'', sp, rest 1, Eol]),
    (''select-all'', seqs [cmd2 ''select'' ''all'', Opt (seqs [sp, word 1]), Eol]),
    (''select-none'', seqs [cmd2 ''select'' ''none'', Eol]),
    (''select-by'', seqs [cmd2 ''select'' ''by'', sp, rest 1, Eol]),
    (''goto'', seqs [lits ''/goto'', sp, quoted 1, Eol]),
    (''find'', seqs [lits ''/find'', sp, quoted 1, Eol]),
    (''next'', seqs [lits ''/next'', Opt (seqs [sp, word 1]), Eol]),
    (''previous'', seqs [lits ''/previous'', Opt (seqs [sp, word 1]), Eol]),
    (''batch-create'', seqs [cmd2 ''batch'' ''create'', sp, word 1, sp, rest 2, Eol]),
    (''batch-connect'', seqs [cmd2 ''batch'' ''connect'', sp, quoted 1, sp, quoted 2, Eol]),
    (''batch-tag'', seqs [cmd2 ''batch'' ''tag'', sp, quoted 1, sp, rest 2, Eol])]"

definition wf_command_descriptions :: "(string \<times> string) list" where
  "wf_command_descriptions = [
    (''/node-create <type> [name] [x,y]'', ''Create a new node''),
    (''/node-delete <identifier>'', ''Delete a node''),
    (''/node-rename <old> <new>'', ''Rename a node''),
    (''/node-move <node> <x,y>'', ''Move a node to position''),
    (''/node-type <node> <type>'', ''Change node type''),
    (''/task-create <name> [node] [priority]'', ''Create a new task''),
    (''/task-delete <identifier>'', ''Delete a task''),
    (''/task-move <task> <target-node>'', ''Move task to node''),
    (''/task-advance <task> <target-node>'', ''Advance task to node''),
    (''/task-priority <task> <priority>'', ''Set task priority''),
    (''/connect <source> <target> [type]'', ''Create flowline between nodes''),
    (''/disconnect <source> <target>'', ''Remove flowline''),
    (''/flowline-type <source> <target> <type>'', ''Change flowline type''),
    (''/disconnect all'', ''Remove all flowlines''),
    (''/tag-create <name> [category] [props]'', ''Create a new tag''),
    (''/tag-add <tag> <element>'', ''Add tag to element''),
    (''/tag-remove <tag> <element>'', ''Remove tag from element''),
    (''/tag-list [filter]'', ''List tags''),
    (''/workflow-save [filename]'', ''Save current workflow''),
    (''/workflow-load <filename>'', ''Load workflow file''),
    (''/workflow-export [format]'', ''Export workflow''),
    (''/workflow-clear [confirm]'', ''Clear current workflow''),
    (''/workflow-status'', ''Show workflow status''),
    (''/workflow-stats'', ''Show detailed statistics''),
    (''/matrix-enter'', ''Enter Eisenhower Matrix mode''),
    (''/matrix-exit'', ''Exit matrix mode''),
    (''/matrix-move <task> <quadrant>'', ''Move task in matrix''),
    (''/matrix-show [quadrant]'', ''Show matrix quadrant''),
    (''/view-zoom <level|in|out|fit>'', ''Zoom view''),
    (''/view-center [node]'', ''Center view on element''),
    (''/view-focus <element>'', ''Focus on element''),
    (''/select <identifier>'', ''Select element''),
    (''/select-all [type]'', ''Select all elements of type''),
    (''/select-none'', ''Clear selection''),
    (''/select-by <criteria>'', ''Select by criteria''),
    (''/goto <name>'', ''Navigate to element''),
    (''/find <name>'', ''Find element by name''),
    (''/next [type]'', ''Navigate to next element''),
    (''/previous [type]'', ''Navigate to previous element''),
    (''/batch-create <type> <list>'', ''Create multiple elements''),
    (''/batch-connect <sources> <targets>'', ''Create multiple connections''),
    (''/batch-tag <tag> <elements>'', ''Tag multiple elements'')]"

definition wf_valid_values :: "(string \<times> string list) list" where
  "wf_valid_values = [
    (''node_types'', [''process'', ''decision'', ''terminal'', ''start'']),
    (''flowline_types'', [''sequence'', ''conditional'', ''error'', ''parallel'']),
    (''task_priorities'', [''low'', ''normal'', ''high'', ''urgent'']),
    (''matrix_quadrants'', [''urgent-important'', ''urgent-not-important'',
        ''not-urgent-important'', ''not-urgent-not-important'']),
    (''view_zoom'', [''in'', ''out'', ''fit'', ''reset'']),
    (''element_types'', [''node'', ''task'', ''flowline'', ''tag'']),
    (''export_formats'', [''json'', ''png'', ''svg'', ''pdf''])]"

definition WorkflowCommandServer :: server where
  "WorkflowCommandServer = \<lparr> command_patterns = wf_command_patterns,
     command_descriptions = wf_command_descriptions, valid_values = wf_valid_values \<rparr>"

text \<open>
  \<open>_parse_workflow_match\<close>: every branch of the \<open>if/elif\<close> chain over the command name
  gives the number of groups it reads, the \<open>parameters\<close> dictionary and the \<open>action\<close>.
  The last branch, for a name the chain does not know, leaves \<open>parameters\<close> empty.
\<close>

definition confirmed_flag :: "string option \<Rightarrow> pyval" where
  "confirmed_flag g =
     (case g of None \<Rightarrow> PBool False
      | Some s \<Rightarrow> if s \<noteq> [] then PBool (s = ''yes'' \<or> s = ''confirm'') else PBool False)"

definition py_replace_chr :: "char \<Rightarrow> char \<Rightarrow> string \<Rightarrow> string" where
  "py_replace_chr a b s = map (\<lambda>c. if c = a then b else c) s"

definition wf_extract :: "string \<Rightarrow> string option list \<Rightarrow> nat \<times> dict \<times> string" where
  "wf_extract command_name groups =
    (let g = (\<lambda>i. groups ! i); s = (\<lambda>i. opt_str (groups ! i)) in
     if command_name = ''node-create'' then
       (5, [(''type'', or_else (g 0) (PStr ''process'')),
            (''name'', or_else (g 1) (or_else (g 2) PNone)),
            (''x'', or_else (g 3) PNone), (''y'', or_else (g 4) PNone)], ''create_node'')
     else if command_name = ''node-delete'' then
       (1, [(''identifier'', s 0)], ''delete_node'')
     else if command_name = ''node-rename'' then
       (2, [(''old_name'', s 0), (''new_name'', s 1)], ''rename_node'')
     else if command_name = ''node-move'' then
       (3, [(''identifier'', s 0), (''x'', s 1), (''y'', s 2)], ''move_node'')
     else if command_name = ''task-create'' then
       (3, [(''name'', s 0), (''node'', or_else (g 1) PNone),
            (''priority'', or_else (g 2) (PStr ''normal''))], ''create_task'')
     else if command_name = ''flowline-create'' then
       (3, [(''source'', s 0), (''target'', s 1),
            (''type'', or_else (g 2) (PStr ''sequence''))], ''create_flowline'')
     else if command_name = ''workflow-save'' then
       (1, [(''filename'', or_else (g 0) PNone)], ''save_workflow'')
     else if command_name = ''workflow-status'' then (0, [], ''show_workflow_status'')
     else if command_name = ''matrix-enter'' then (0, [], ''enter_matrix_mode'')
     else if command_name = ''matrix-exit'' then (0, [], ''exit_matrix_mode'')
     else if command_name = ''matrix-move'' then
       (2, [(''task'', s 0), (''quadrant'', s 1)], ''move_task_in_matrix'')
     else if command_name = ''task-delete'' then
       (1, [(''identifier'', s 0)], ''delete_task'')
     else if command_name = ''task-move'' then
       (2, [(''task'', s 0), (''target_node'', s 1)], ''move_task'')
     else if command_name = ''task-advance'' then
       (2, [(''task'', s 0), (''target_node'', s 1)], ''advance_task'')
     else if command_name = ''task-priority'' then
       (2, [(''task'', s 0), (''priority'', s 1)], ''set_task_priority'')
     else if command_name = ''flowline-delete'' then
       (2, [(''source'', s 0), (''target'', s 1)], ''delete_flowline'')
     else if command_name = ''flowline-type'' then
       (3, [(''source'', s 0), (''target'', s 1), (''type'', s 2)], ''change_flowline_type'')
     else if command_name = ''disconnect-all'' then (0, [], ''disconnect_all_flowlines'')
     else if command_name = ''tag-create'' then
       (3, [(''name'', s 0), (''category'', or_else (g 1) (PStr ''general'')),
            (''properties'', or_else (g 2) PNone)], ''create_tag'')
     else if command_name = ''tag-add'' then
       (2, [(''tag'', s 0), (''element'', s 1)], ''add_tag'')
     else if command_name = ''tag-remove'' then
       (2, [(''tag'', s 0), (''element'', s 1)], ''remove_tag'')
     else if command_name = ''tag-list'' then
       (1, [(''filter'', or_else (g 0) PNone)], ''list_tags'')
     else if command_name = ''workflow-load'' then
       (1, [(''filename'', s 0)], ''load_workflow'')
     else if command_name = ''workflow-export'' then
       (1, [(''format'', or_else (g 0) (PStr ''json''))], ''export_workflow'')
     else if command_name = ''workflow-clear'' then
       (1, [(''confirmed'', confirmed_flag (g 0))], ''clear_workflow'')
     else if command_name = ''workflow-stats'' then (0, [], ''show_workflow_stats'')
     else if command_name = ''view-zoom'' then (1, [(''level'', s 0)], ''zoom_view'')
     else if command_name = ''view-center'' then
       (1, [(''target'', or_else (g 0) PNone)], ''center_view'')
     else if command_name = ''view-focus'' then (1, [(''element'', s 0)], ''focus_element'')
     else if command_name = ''select'' then (1, [(''target'', s 0)], ''select_element'')
     else if command_name = ''select-all'' then
       (1, [(''type'', or_else (g 0) PNone)], ''select_all'')
     else if command_name = ''select-none'' then (0, [], ''clear_selection'')
     else if command_name = ''select-by'' then
       (1, [(''criteria'', s 0)], ''select_by_criteria'')
     else if command_name = ''goto'' then (1, [(''target'', s 0)], ''navigate_to_element'')
     else if command_name = ''find'' then (1, [(''query'', s 0)], ''find_element'')
     else if command_name = ''next'' then
       (1, [(''type'', or_else (g 0) PNone)], ''navigate_next'')
     else if command_name = ''previous'' then
       (1, [(''type'', or_else (g 0) PNone)], ''navigate_previous'')
     else if command_name = ''batch-create'' then
       (2, [(''type'', s 0), (''data'', s 1)], ''batch_create_elements'')
     else if command_name = ''batch-connect'' then
       (2, [(''sources'', s 0), (''targets'', s 1)], ''batch_connect_elements'')
     else if command_name = ''batch-tag'' then
       (2, [(''tag'', s 0), (''elements'', s 1)], ''batch_tag_elements'')
     else (0, [], ''handle_'' @ py_replace_chr CHR ''-'' CHR ''_'' command_name))"

definition parse_workflow_match :: "string \<Rightarrow> string option list \<Rightarrow> py_error + dict" where
  "parse_workflow_match command_name groups =
    (let result = [(''is_workflow_command'', PBool True), (''command_type'', PStr command_name),
                   (''parameters'', PDict []), (''raw_params'', PList (map opt_str groups))];
         (n, parameters, action) = wf_extract command_name groups
     in need n groups
          (dict_set (dict_set result ''parameters'' (PDict parameters)) ''action'' (PStr action)))"

text \<open>
  \<open>_suggest_similar_workflow_command\<close>: the loop over the keys of the help table, with
  the best match and its score so far. The quotient raises when both strings are empty.
\<close>

definition common_chars :: "string \<Rightarrow> string \<Rightarrow> nat" where
  "common_chars a b = length (remdups (filter (\<lambda>c. c \<in> set b) a))"

definition similarity :: "string \<Rightarrow> string \<Rightarrow> py_error + rat" where
  "similarity unknown cmd_clean =
     (let common = common_chars unknown cmd_clean;
          longest = max (length unknown) (length cmd_clean)
      in if longest = 0 then Inl ZeroDivisionError
         else Inr (of_nat common / of_nat longest))"

definition clean :: "string \<Rightarrow> string" where
  "clean cmd = py_lstrip_chars ''/'' (py_lower cmd)"

fun suggest_loop ::
  "string \<Rightarrow> string list \<Rightarrow> string option \<times> rat \<Rightarrow> py_error + string option \<times> rat" where
  "suggest_loop unknown [] best = Inr best"
| "suggest_loop unknown (cmd # cmds) best =
     (case similarity unknown (clean cmd) of
        Inl e \<Rightarrow> Inl e
      | Inr score \<Rightarrow>
          if score > snd best \<and> score > 3 / 10
          then suggest_loop unknown cmds (Some cmd, score)
          else suggest_loop unknown cmds best)"

definition suggest_similar_command :: "server \<Rightarrow> string \<Rightarrow> py_error + string option" where
  "suggest_similar_command self unknown_command =
     bindE (suggest_loop (clean unknown_command) (map fst (command_descriptions self)) (None, 0))
       (\<lambda>best. Inr (fst best))"

text \<open>
  The score as the specification words it: the size of the intersection of the two
  character sets over the larger length, both strings lowercased and without leading
  slashes.
\<close>

definition spec_similarity :: "string \<Rightarrow> string \<Rightarrow> rat" where
  "spec_similarity unknown_token candidate =
     of_nat (card (set (clean unknown_token) \<inter> set (clean candidate)))
       / of_nat (max (length (clean unknown_token)) (length (clean candidate)))"

text \<open>
  \<open>parse_workflow_command\<close>: the body of the \<open>try\<close> block, then the method with its
  \<open>except\<close> clause. The loop over the pattern table returns at the first pattern that
  matches.
\<close>

fun first_match :: "(string \<times> regex) list \<Rightarrow> string \<Rightarrow> (string \<times> string option list) option" where
  "first_match [] s = None"
| "first_match ((command_name, pattern) # ps) s =
     (case re_match True pattern s of
        Some groups \<Rightarrow> Some (command_name, groups)
      | None \<Rightarrow> first_match ps s)"

definition workflow_keywords :: "string list" where
  "workflow_keywords = [''node'', ''task'', ''flow'', ''tag'', ''workflow'', ''matrix'', ''select'',
     ''view'', ''create'', ''delete'', ''move'', ''connect'', ''save'', ''load'']"


definition parse_workflow_body :: "server \<Rightarrow> string \<Rightarrow> py_error + dict" where
  "parse_workflow_body self input =
    (let input_text = py_strip input in
     if \<not> startswith input_text ''/'' then
       Inr [(''is_workflow_command'', PBool False), (''type'', PStr ''text''),
            (''should_process_with_llm'', PBool True)]
     else case first_match (command_patterns self) input_text of
       Some (command_name, groups) \<Rightarrow>
         bindE (parse_workflow_match command_name groups)
           (\<lambda>parsed_command. Inr (dict_set parsed_command ''original_input'' (PStr input_text)))
     | None \<Rightarrow>
         if list_ex (\<lambda>keyword. py_in keyword (py_lower input_text)) workflow_keywords then
           bindE (first_item (py_split input_text)) (\<lambda>command.
           bindE (suggest_similar_command self command) (\<lambda>suggestion.
             Inr [(''is_workflow_command'', PBool True),
                  (''type'', PStr ''unknown_workflow_command''),
                  (''command'', PStr command),
                  (''error'', PStr (''Unknown workflow command: '' @ command)),
                  (''suggestion'', opt_str suggestion),
                  (''should_process_with_llm'', PBool False)]))
         else
           Inr [(''is_workflow_command'', PBool False), (''type'', PStr ''non_workflow_command''),
                (''should_process_with_llm'', PBool False)])"

definition parse_workflow_command :: "server \<Rightarrow> string \<Rightarrow> dict" where
  "parse_workflow_command self input_text =
    (case parse_workflow_body self input_text of
       Inr result \<Rightarrow> result
     | Inl e \<Rightarrow> [(''is_workflow_command'', PBool False), (''type'', PStr ''error''),
                 (''error'', PStr (str_of_error e)), (''should_process_with_llm'', PBool True)])"

text \<open>
  \<open>validate_workflow_command\<close> and \<open>_generate_workflow_suggestions\<close>. The result
  dictionary is built as the code builds it: created with \<open>valid = True\<close> and three empty
  lists, then changed by the branch of the command type, and at the end, when still
  valid, its \<open>suggestions\<close> entry is assigned the list of general suggestions.
  \<open>parameters.get\<close> raises \<open>AttributeError\<close> when \<open>parameters\<close> is not a dictionary.
\<close>

definition lookup_valid :: "server \<Rightarrow> string \<Rightarrow> py_error + string list" where
  "lookup_valid self k =
     (case map_of (valid_values self) k of None \<Rightarrow> Inl (KeyError k) | Some vs \<Rightarrow> Inr vs)"

fun not_in :: "pyval \<Rightarrow> string list \<Rightarrow> bool" where
  "not_in (PStr s) vs = (s \<notin> set vs)"
| "not_in v vs = True"

fun params_of :: "pyval \<Rightarrow> py_error + dict" where
  "params_of (PDict d) = Inr d"
| "params_of v = Inl (AttributeError (type_name v) ''get'')"

definition append_item :: "dict \<Rightarrow> string \<Rightarrow> pyval \<Rightarrow> dict" where
  "append_item d k v =
     (case dict_get d k of PList xs \<Rightarrow> dict_set d k (PList (xs @ [v])) | _ \<Rightarrow> d)"

fun py_int_val :: "pyval \<Rightarrow> py_error + int" where
  "py_int_val (PStr s) = py_int s"
| "py_int_val (PInt i) = Inr i"
| "py_int_val (PBool b) = Inr (if b then 1 else 0)"
| "py_int_val (PFloat q) = Inr (if q \<ge> 0 then \<lfloor>q\<rfloor> else \<lceil>q\<rceil>)"
| "py_int_val v = Inl (TypeError (''int() argument must be a string, a bytes-like object or a real number, not ''
       @ [sq] @ type_name v @ [sq]))"

definition invalid_msg :: "string \<Rightarrow> pyval \<Rightarrow> string \<Rightarrow> string list \<Rightarrow> string" where
  "invalid_msg what v plural vs =
     ''Invalid '' @ what @ '' '' @ [sq] @ py_str v @ [sq] @ ''. Valid '' @ plural @ '': ''
       @ py_join '', '' vs"

definition reject :: "dict \<Rightarrow> string \<Rightarrow> dict" where
  "reject validation_result msg =
     dict_set (append_item validation_result ''errors'' (PStr msg)) ''valid'' (PBool False)"

definition generate_workflow_suggestions :: "pyval \<Rightarrow> pyval \<Rightarrow> py_error + pyval list" where
  "generate_workflow_suggestions command_type parameters =
    (if command_type = PStr ''node-create'' then
       bindE (params_of parameters) (\<lambda>p.
         Inr ((if \<not> truthy (dict_get p ''name'')
               then [PStr ''Consider adding a descriptive name in quotes''] else [])
            @ (if \<not> truthy (dict_get p ''x'') \<or> \<not> truthy (dict_get p ''y'')
               then [PStr ''Add x,y coordinates to position the node precisely''] else [])))
     else if command_type = PStr ''flowline-create'' then
       bindE (params_of parameters) (\<lambda>p.
         Inr (if dict_get p ''type'' = PStr ''sequence''
              then [PStr (''Consider using '' @ [sq] @ ''conditional'' @ [sq]
                          @ '' for decision-based flows'')] else []))
     else if command_type = PStr ''task-create'' then
       bindE (params_of parameters) (\<lambda>p.
         Inr (if \<not> truthy (dict_get p ''node'')
              then [PStr ''Specify target node to automatically associate the task''] else []))
     else Inr [])"

definition validate_branch :: "server \<Rightarrow> pyval \<Rightarrow> pyval \<Rightarrow> dict \<Rightarrow> py_error + dict" where
  "validate_branch self command_type parameters validation_result =
    (if command_type = PStr ''node-create'' then
       bindE (params_of parameters) (\<lambda>p.
       bindE (let node_type = dict_get p ''type'' in
              if truthy node_type then
                bindE (lookup_valid self ''node_types'') (\<lambda>vs.
                  Inr (if not_in node_type vs
                       then reject validation_result (invalid_msg ''node type'' node_type ''types'' vs)
                       else validation_result))
              else Inr validation_result) (\<lambda>vr.
       let x = dict_get p ''x''; y = dict_get p ''y'';
           warned = append_item vr ''warnings'' (PStr ''Position outside typical canvas bounds'')
       in if x \<noteq> PNone \<and> y \<noteq> PNone then
            bindE (py_int_val x) (\<lambda>xi.
              if 0 \<le> xi \<and> xi \<le> 2000 then
                bindE (py_int_val y) (\<lambda>yi.
                  Inr (if 0 \<le> yi \<and> yi \<le> 2000 then vr else warned))
              else Inr warned)
          else Inr vr))
     else if command_type = PStr ''flowline-create'' then
       bindE (params_of parameters) (\<lambda>p.
       let flowline_type = dict_get_default p ''type'' (PStr ''sequence'') in
       bindE (lookup_valid self ''flowline_types'') (\<lambda>vs.
         Inr (if not_in flowline_type vs
              then reject validation_result
                     (invalid_msg ''flowline type'' flowline_type ''types'' vs)
              else validation_result)))
     else if command_type = PStr ''task-priority'' then
       bindE (params_of parameters) (\<lambda>p.
       let priority = dict_get p ''priority'' in
       if truthy priority then
         bindE (lookup_valid self ''task_priorities'') (\<lambda>vs.
           Inr (if not_in priority vs
                then reject validation_result (invalid_msg ''priority'' priority ''priorities'' vs)
                else validation_result))
       else Inr validation_result)
     else if command_type = PStr ''matrix-move'' then
       bindE (params_of parameters) (\<lambda>p.
       let quadrant = dict_get p ''quadrant'' in
       if truthy quadrant then
         bindE (lookup_valid self ''matrix_quadrants'') (\<lambda>vs.
           Inr (if not_in quadrant vs
                then reject validation_result
                       (invalid_msg ''matrix quadrant'' quadrant ''quadrants'' vs)
                else validation_result))
       else Inr validation_result)
     else if command_type = PStr ''workflow-clear'' then
       bindE (params_of parameters) (\<lambda>p.
         Inr (if \<not> truthy (dict_get p ''confirmed'') then
                append_item
                  (append_item validation_result ''warnings''
                     (PStr (''Destructive operation. Add '' @ [sq] @ ''yes'' @ [sq] @ '' or ''
                            @ [sq] @ ''confirm'' @ [sq] @ '' to proceed'')))
                  ''suggestions'' (PStr ''Use: /workflow-clear yes'')
              else validation_result))
     else Inr validation_result)"

definition validate_workflow_body :: "server \<Rightarrow> dict \<Rightarrow> py_error + dict" where
  "validate_workflow_body self command_data =
    (if \<not> truthy (dict_get command_data ''is_workflow_command'') then
       Inr [(''valid'', PBool True), (''type'', PStr ''non_workflow''),
            (''action'', PStr ''pass_through'')]
     else
       let command_type = dict_get command_data ''command_type'';
           parameters = dict_get_default command_data ''parameters'' (PDict []);
           validation_result = [(''valid'', PBool True), (''errors'', PList []),
                                (''warnings'', PList []), (''suggestions'', PList [])]
       in bindE (validate_branch self command_type parameters validation_result) (\<lambda>vr.
            if truthy (dict_get vr ''valid'') then
              bindE (generate_workflow_suggestions command_type parameters) (\<lambda>suggestions.
                Inr (dict_set vr ''suggestions'' (PList suggestions)))
            else Inr vr))"

definition validate_workflow_command :: "server \<Rightarrow> dict \<Rightarrow> dict" where
  "validate_workflow_command self command_data =
    (case validate_workflow_body self command_data of
       Inr result \<Rightarrow> result
     | Inl e \<Rightarrow> [(''valid'', PBool False), (''errors'', PList [PStr (str_of_error e)])])"

subsection \<open>The chat command server\<close>

definition nonspace :: "nat \<Rightarrow> regex" where
  "nonspace k = Grp k (Plus (Cls NonSpace))"

definition rest0 :: "nat \<Rightarrow> regex" where
  "rest0 k = Grp k (Star (Cls AnyChar))"

definition chat_command_patterns :: "(string \<times> regex) list" where
  "chat_command_patterns = [
    (''note'', seqs [lits ''/note'', Opt (seqs [sp, rest 1]), Eol]),
    (''note-create'', seqs [cmd2 ''note'' ''create'', sp, rest 1, Eol]),
    (''note-search'', seqs [cmd2 ''note'' ''search'', sp, rest 1, Eol]),
    (''note-find'', seqs [cmd2 ''note'' ''find'', sp, rest 1, Eol]),
    (''note-tag'', seqs [cmd2 ''note'' ''tag'', sp, nonspace 1, sp, rest 2, Eol]),
    (''note-list'', seqs [cmd2 ''note'' ''list'', Opt (seqs [sp, rest0 1]), Eol]),
    (''note-link'', seqs [cmd2 ''note'' ''link'', sp, nonspace 1, sp, nonspace 2, Eol]),
    (''opp'', seqs [lits ''/opp'', Opt (seqs [sp, rest 1]), Eol]),
    (''opp-create'', seqs [cmd2 ''opp'' ''create'', sp, rest 1, Eol]),
    (''opp-list'', seqs [cmd2 ''opp'' ''list'', Opt (seqs [sp, rest0 1]), Eol]),
    (''opp-link'', seqs [cmd2 ''opp'' ''link'', sp, nonspace 1, sp, nonspace 2, Eol]),
    (''opp-search'', seqs [cmd2 ''opp'' ''search'', sp, rest 1, Eol]),
    (''task-note'', seqs [cmd2 ''task'' ''note'', sp, nonspace 1, sp, rest 2, Eol]),
    (''task-link'', seqs [cmd2 ''task'' ''link'', sp, nonspace 1, sp, nonspace 2, Eol]),
    (''analyze'', seqs [lits ''/analyze'', sp, rest 1, Eol]),
    (''suggest'', seqs [lits ''/suggest'', Opt (seqs [sp, rest 1]), Eol]),
    (''associate'', seqs [lits ''/associate'', sp, nonspace 1, sp, nonspace 2, Eol]),
    (''sql'', seqs [lits ''/sql'', sp, Alt (quoted 1) (rest 2), Eol]),
    (''db-query'', seqs [cmd2 ''db'' ''query'', sp, Alt (quoted 1) (rest 2), Eol]),
    (''help'', seqs [lits ''/help'', Opt (seqs [sp, rest0 1]), Eol]),
    (''commands'', seqs [lits ''/commands'', Eol]),
    (''status'', seqs [lits ''/status'', Eol])]"

definition chat_command_descriptions :: "(string \<times> string) list" where
  "chat_command_descriptions = [
    (''/note'', ''General note operations''),
    (''/note-create &lt;content&gt;'', ''Create a new note''),
    (''/note-search &lt;query&gt;'', ''Search notes by content''),
    (''/note-find &lt;query&gt;'', ''Find notes (alias for search)''),
    (''/note-tag &lt;note_id&gt; &lt;tags&gt;'', ''Add tags to a note''),
    (''/note-list [filters]'', ''List notes with optional filters''),
    (''/note-link &lt;note_id&gt; &lt;target_id&gt;'', ''Link note to opportunity/task''),
    (''/opp'', ''General opportunity operations''),
    (''/opp-create &lt;title&gt;'', ''Create a new opportunity''),
    (''/opp-list [filters]'', ''List opportunities''),
    (''/opp-link &lt;opp_id&gt; &lt;target_id&gt;'', ''Link opportunity to task/workflow''),
    (''/opp-search &lt;query&gt;'', ''Search opportunities''),
    (''/task-note &lt;task_id&gt; &lt;content&gt;'', ''Create note for specific task''),
    (''/task-link &lt;task_id&gt; &lt;note_id&gt;'', ''Link task to note''),
    (''/analyze &lt;text&gt;'', ''Analyze text for potential associations''),
    (''/suggest [context]'', ''Get suggestions for current context''),
    (''/associate &lt;id1&gt; &lt;id2&gt;'', ''Create association between items''),
    (''/sql &lt;query&gt;'', ''Execute PostgreSQL query directly''),
    (''/db-query &lt;query&gt;'', ''Execute PostgreSQL query (alias for /sql)''),
    (''/help [command]'', ''Show help information''),
    (''/commands'', ''List all available commands''),
    (''/status'', ''Show system status''),
    (''/node-create &lt;type&gt; [name] [x,y]'', ''Create a new node (process, decision, terminal)''),
    (''/node-delete &lt;identifier&gt;'', ''Delete a node by name or ID''),
    (''/node-rename &lt;old&gt; &lt;new&gt;'', ''Rename a node''),
    (''/node-move &lt;node&gt; &lt;x,y&gt;'', ''Move a node to position''),
    (''/node-type &lt;node&gt; &lt;type&gt;'', ''Change node type''),
    (''/task-create &lt;name&gt; [node] [priority]'', ''Create a new task''),
    (''/task-delete &lt;identifier&gt;'', ''Delete a task''),
    (''/task-move &lt;task&gt; &lt;target-node&gt;'', ''Move task to node''),
    (''/task-advance &lt;task&gt; &lt;target-node&gt;'', ''Advance task to node''),
    (''/task-priority &lt;task&gt; &lt;priority&gt;'', ''Set task priority (low, normal, high, urgent)''),
    (''/connect &lt;source&gt; &lt;target&gt; [type]'', ''Create flowline between nodes''),
    (''/disconnect &lt;source&gt; &lt;target&gt;'', ''Remove flowline''),
    (''/flowline-type &lt;source&gt; &lt;target&gt; &lt;type&gt;'', ''Change flowline type''),
    (''/disconnect all'', ''Remove all flowlines''),
    (''/tag-create &lt;name&gt; [category] [props]'', ''Create a new tag''),
    (''/tag-add &lt;tag&gt; &lt;element&gt;'', ''Add tag to element''),
    (''/tag-remove &lt;tag&gt; &lt;element&gt;'', ''Remove tag from element''),
    (''/tag-list [filter]'', ''List tags''),
    (''/workflow-save [filename]'', ''Save current workflow''),
    (''/workflow-load &lt;filename&gt;'', ''Load workflow file''),
    (''/workflow-export [format]'', ''Export workflow (json, png, svg, pdf)''),
    (''/workflow-clear [confirm]'', ''Clear/reset workflow''),
    (''/workflow-status'', ''Show workflow statistics''),
    (''/workflow-stats'', ''Show detailed workflow stats''),
    (''/matrix-enter'', ''Enter Eisenhower Matrix mode''),
    (''/matrix-exit'', ''Exit Eisenhower Matrix mode''),
    (''/matrix-move &lt;task&gt; &lt;quadrant&gt;'', ''Move task in matrix''),
    (''/matrix-show [quadrant]'', ''Show matrix quadrant''),
    (''/view-zoom &lt;level&gt;'', ''Zoom view (in, out, fit, reset)''),
    (''/view-center [node]'', ''Center view on node''),
    (''/view-focus &lt;element&gt;'', ''Focus on element''),
    (''/select &lt;element&gt;'', ''Select element''),
    (''/select-all [type]'', ''Select all elements of type''),
    (''/select-none'', ''Clear selection''),
    (''/goto &lt;node&gt;'', ''Navigate to node''),
    (''/find &lt;name&gt;'', ''Find element by name'')]"

definition ChatCommandServer :: server where
  "ChatCommandServer = \<lparr> command_patterns = chat_command_patterns,
     command_descriptions = chat_command_descriptions, valid_values = [] \<rparr>"

text \<open>
  \<open>_parse_list_filters\<close>: four independent searches in the filter string, each for the
  leftmost occurrence of its key followed by a colon and a value.
\<close>

definition tag_pattern :: regex where
  "tag_pattern = seqs [lits ''tag:'', Grp 1 (Plus (Cls NonSpace))]"

definition opp_pattern :: regex where
  "opp_pattern = seqs [lits ''opp:'', Grp 1 (Plus (Cls NonSpace))]"

definition task_pattern :: regex where
  "task_pattern = seqs [lits ''task:'', Grp 1 (Plus (Cls NonSpace))]"

definition limit_pattern :: regex where
  "limit_pattern = seqs [lits ''limit:'', Grp 1 (Plus (Cls DigitChar))]"

text \<open>\<open>m.group(1)\<close> of a match whose first group took part in it.\<close>

definition group1 :: "string option list \<Rightarrow> string" where
  "group1 groups = (case groups of Some g # _ \<Rightarrow> g | _ \<Rightarrow> [])"

definition parse_list_filters :: "string \<Rightarrow> py_error + dict" where
  "parse_list_filters filter_string =
    (if filter_string = [] then Inr []
     else
       let filters = [];
           filters = (case re_search False tag_pattern filter_string of
                        Some m \<Rightarrow> dict_set filters ''tags''
                                    (PList (map PStr (py_split_on CHR '','' (group1 m))))
                      | None \<Rightarrow> filters);
           filters = (case re_search False opp_pattern filter_string of
                        Some m \<Rightarrow> dict_set filters ''opportunity_id'' (PStr (group1 m))
                      | None \<Rightarrow> filters);
           filters = (case re_search False task_pattern filter_string of
                        Some m \<Rightarrow> dict_set filters ''task_id'' (PStr (group1 m))
                      | None \<Rightarrow> filters)
       in case re_search False limit_pattern filter_string of
            Some m \<Rightarrow> bindE (py_int (group1 m)) (\<lambda>n. Inr (dict_set filters ''limit'' (PInt n)))
          | None \<Rightarrow> Inr filters)"

text \<open>
  \<open>_parse_command_match\<close>: every branch gives the \<open>parameters\<close> dictionary and, where
  the branch sets one, the \<open>action\<close>. A command name without a branch keeps the empty
  \<open>parameters\<close> and gets no \<open>action\<close>.
\<close>

definition str_or_empty :: "string option \<Rightarrow> string" where
  "str_or_empty g = (case g of None \<Rightarrow> [] | Some s \<Rightarrow> s)"

definition guarded :: "string option list \<Rightarrow> nat \<Rightarrow> pyval" where
  "guarded groups i = (if length groups > i then opt_str (groups ! i) else PStr [])"

definition chat_extract :: "string \<Rightarrow> string option list \<Rightarrow> py_error + dict \<times> string option" where
  "chat_extract command_name groups =
    (if command_name \<in> set [''note'', ''note-create''] then
       need 1 groups ([(''content'', PStr (str_or_empty (groups ! 0)))], Some ''create_note'')
     else if command_name \<in> set [''note-search'', ''note-find'', ''opp-search''] then
       need 1 groups ([(''query'', PStr (str_or_empty (groups ! 0)))],
         Some (if py_in ''note'' command_name then ''search_notes'' else ''search_opportunities''))
     else if command_name = ''note-tag'' then
       bindE (if length groups > 1
              then (case groups ! 1 of None \<Rightarrow> Inl (AttributeError ''NoneType'' ''split'')
                    | Some s \<Rightarrow> Inr (PList (map PStr (py_split s))))
              else Inr (PList []))
         (\<lambda>tags. Inr ([(''note_id'', guarded groups 0), (''tags'', tags)], Some ''add_tags_to_note''))
     else if command_name = ''note-list'' then
       bindE (need 1 groups ()) (\<lambda>_.
       bindE (parse_list_filters (str_or_empty (groups ! 0))) (\<lambda>filters.
         Inr ([(''filters'', PDict filters)], Some ''list_notes'')))
     else if command_name = ''note-link'' then
       Inr ([(''note_id'', guarded groups 0), (''target_id'', guarded groups 1)], Some ''link_note'')
     else if command_name = ''opp-create'' then
       bindE (need 1 groups ()) (\<lambda>_.
         let content = str_or_empty (groups ! 0);
             parts = py_split1 '' - '' content
         in Inr ([(''title'', PStr (py_strip_chars [dq, sq] (parts ! 0))),
                  (''description'', PStr (if length parts > 1 then parts ! 1 else []))],
                 Some ''create_opportunity''))
     else if command_name = ''opp-list'' then
       bindE (need 1 groups ()) (\<lambda>_.
       bindE (parse_list_filters (str_or_empty (groups ! 0))) (\<lambda>filters.
         Inr ([(''filters'', PDict filters)], Some ''list_opportunities'')))
     else if command_name = ''task-note'' then
       Inr ([(''task_id'', guarded groups 0), (''content'', guarded groups 1)],
            Some ''create_task_note'')
     else if command_name = ''analyze'' then
       need 1 groups ([(''text'', PStr (str_or_empty (groups ! 0)))], Some ''analyze_text'')
     else if command_name = ''help'' then
       need 1 groups ([(''topic'', or_else (groups ! 0) PNone)], Some ''show_help'')
     else if command_name = ''commands'' then Inr ([], Some ''list_commands'')
     else if command_name = ''status'' then Inr ([], Some ''show_status'')
     else Inr ([], None))"

definition parse_command_match :: "string \<Rightarrow> string option list \<Rightarrow> py_error + dict" where
  "parse_command_match command_name groups =
    (let result = [(''is_command'', PBool True), (''command_type'', PStr command_name),
                   (''parameters'', PDict []), (''raw_params'', PList (map opt_str groups))]
     in bindE (chat_extract command_name groups) (\<lambda>(parameters, action).
          let result = dict_set result ''parameters'' (PDict parameters)
          in Inr (case action of None \<Rightarrow> result
                  | Some a \<Rightarrow> dict_set result ''action'' (PStr a))))"

definition parse_chat_body :: "server \<Rightarrow> string \<Rightarrow> py_error + dict" where
  "parse_chat_body self input =
    (let input_text = py_strip input in
     if \<not> startswith input_text ''/'' then
       Inr [(''is_command'', PBool False), (''type'', PStr ''text''),
            (''content'', PStr input_text), (''should_process_with_llm'', PBool True)]
     else case first_match (command_patterns self) input_text of
       Some (command_name, groups) \<Rightarrow>
         bindE (parse_command_match command_name groups)
           (\<lambda>parsed_command. Inr (dict_set parsed_command ''original_input'' (PStr input_text)))
     | None \<Rightarrow>
         bindE (first_item (py_split input_text)) (\<lambda>command.
         bindE (suggest_similar_command self command) (\<lambda>suggestion.
           Inr [(''is_command'', PBool True),
                (''type'', PStr ''unknown_command''),
                (''command'', PStr command),
                (''error'', PStr (''Unknown command: '' @ command)),
                (''suggestion'', opt_str suggestion),
                (''should_process_with_llm'', PBool False)])))"

definition parse_chat_input :: "server \<Rightarrow> string \<Rightarrow> dict" where
  "parse_chat_input self input_text =
    (case parse_chat_body self input_text of
       Inr result \<Rightarrow> result
     | Inl e \<Rightarrow> [(''is_command'', PBool False), (''type'', PStr ''error''),
                 (''error'', PStr (str_of_error e)), (''should_process_with_llm'', PBool True)])"






section \<open>Properties\<close>

subsection \<open>Dictionaries and the shape of a parse result\<close>

lemma map_of_dict_set: "map_of (dict_set d k v) k' = (if k' = k then Some v else map_of d k')"
  by (induction d) auto

lemma dict_get_dict_set: "dict_get (dict_set d k v) k' = (if k' = k then v else dict_get d k')"
  by (simp add: dict_get_def dict_get_default_def map_of_dict_set)

lemma dict_get_Nil: "dict_get [] k = PNone"
  by (simp add: dict_get_def dict_get_default_def)

lemma dict_get_Cons: "dict_get ((k, v) # d) k' = (if k = k' then v else dict_get d k')"
  by (simp add: dict_get_def dict_get_default_def)

lemmas dict_simps = dict_get_dict_set dict_get_Nil dict_get_Cons

lemma wf_extract_flowline: "wf_extract ''flowline-create'' groups = (3, [(''source'', opt_str (groups ! 0)), (''target'', opt_str (groups ! 1)),
            (''type'', or_else (groups ! 2) (PStr ''sequence''))], ''create_flowline'')"
  by (simp add: wf_extract_def Let_def)

lemma wf_extract_task_create: "wf_extract ''task-create'' groups = (3, [(''name'', opt_str (groups ! 0)), (''node'', or_else (groups ! 1) PNone),
            (''priority'', or_else (groups ! 2) (PStr ''normal''))], ''create_task'')"
  by (simp add: wf_extract_def Let_def)

lemma parse_workflow_match_fields:
  assumes "parse_workflow_match name groups = Inr pc"
  shows "dict_get pc ''command_type'' = PStr name"
    and "dict_get pc ''raw_params'' = PList (map opt_str groups)"
    and "dict_get pc ''parameters'' = PDict (fst (snd (wf_extract name groups)))"
    and "fst (wf_extract name groups) \<le> length groups"
  using assms
  by (auto simp: parse_workflow_match_def need_def dict_simps split: prod.splits if_splits)

lemma parse_workflow_match_name:
  "parse_workflow_match n g = Inr pc \<Longrightarrow> dict_get pc ''command_type'' = PStr name \<Longrightarrow> n = name"
  using parse_workflow_match_fields(1) by fastforce

lemma parse_workflow_body_matched:
  assumes "parse_workflow_body self s = Inr d" and "dict_get d ''command_type'' = PStr name"
  shows "\<exists>groups pc. first_match (command_patterns self) (py_strip s) = Some (name, groups)
           \<and> parse_workflow_match name groups = Inr pc
           \<and> d = dict_set pc ''original_input'' (PStr (py_strip s))"
proof (cases "first_match (command_patterns self) (py_strip s)")
  case None
  with assms show ?thesis
    by (auto simp: parse_workflow_body_def Let_def bindE_def dict_simps
        split: sum.splits if_splits)
next
  case (Some ng)
  obtain n g where ng: "ng = (n, g)" by (cases ng)
  show ?thesis
  proof (cases "startswith (py_strip s) ''/''")
    case False
    with assms show ?thesis
      by (auto simp: parse_workflow_body_def Let_def dict_simps)
  next
    case True
    with assms Some ng obtain pc where pc: "parse_workflow_match n g = Inr pc"
      and d: "d = dict_set pc ''original_input'' (PStr (py_strip s))"
      by (auto simp: parse_workflow_body_def Let_def bindE_def split: sum.splits)
    from assms(2) d have "dict_get pc ''command_type'' = PStr name"
      by (simp add: dict_simps)
    with pc have "n = name" by (rule parse_workflow_match_name)
    with Some ng pc d show ?thesis by simp
  qed
qed

lemma parse_workflow_matched:
  assumes "dict_get (parse_workflow_command self s) ''command_type'' = PStr name"
  shows "\<exists>groups pc. first_match (command_patterns self) (py_strip s) = Some (name, groups)
           \<and> parse_workflow_match name groups = Inr pc
           \<and> parse_workflow_command self s = dict_set pc ''original_input'' (PStr (py_strip s))"
proof (cases "parse_workflow_body self s")
  case (Inl e)
  with assms show ?thesis by (simp add: parse_workflow_command_def dict_simps)
next
  case (Inr d)
  with assms have "dict_get d ''command_type'' = PStr name"
    by (simp add: parse_workflow_command_def)
  from parse_workflow_body_matched[OF Inr this] Inr show ?thesis
    by (simp add: parse_workflow_command_def)
qed


subsection \<open>Validation of a destructive command without confirmation\<close>

text \<open>
  Claim C4. Validating the parsed command \<open>/workflow-clear\<close>, whose \<open>confirmed\<close> parameter
  is \<open>False\<close>, yields \<open>valid = True\<close> and the warning, but the returned \<open>suggestions\<close> list
  is empty: the branch appends \<open>Use: /workflow-clear yes\<close>, and the assignment of the general
  suggestions, made for every valid result, replaces the list afterwards.
\<close>

theorem workflow_clear_suggestion_lost:
  "validate_workflow_command WorkflowCommandServer
     (parse_workflow_command WorkflowCommandServer ''/workflow-clear'') =
   [(''valid'', PBool True), (''errors'', PList []),
    (''warnings'', PList [PStr (''Destructive operation. Add '' @ [sq] @ ''yes'' @ [sq] @ '' or ''
                            @ [sq] @ ''confirm'' @ [sq] @ '' to proceed'')]),
    (''suggestions'', PList [])]"
  by code_simp

subsection \<open>Defaults for absent optional captures\<close>

lemma default_from_groups:
  assumes ct: "dict_get (parse_workflow_command self s) ''command_type'' = PStr name"
    and raw: "dict_get (parse_workflow_command self s) ''raw_params'' = PList gs"
  shows "\<exists>groups. gs = map opt_str groups \<and> fst (wf_extract name groups) \<le> length groups
           \<and> dict_get (parse_workflow_command self s) ''parameters''
               = PDict (fst (snd (wf_extract name groups)))"
proof -
  from parse_workflow_matched[OF ct] obtain groups pc where
    pc: "parse_workflow_match name groups = Inr pc"
    and r: "parse_workflow_command self s = dict_set pc ''original_input'' (PStr (py_strip s))"
    by blast
  from raw r parse_workflow_match_fields(2)[OF pc] have "gs = map opt_str groups"
    by (simp add: dict_simps)
  moreover from r parse_workflow_match_fields(3)[OF pc]
  have "dict_get (parse_workflow_command self s) ''parameters''
          = PDict (fst (snd (wf_extract name groups)))"
    by (simp add: dict_simps)
  ultimately show ?thesis using parse_workflow_match_fields(4)[OF pc] by blast
qed

lemma opt_str_PNone: "opt_str g = PNone \<longleftrightarrow> g = None"
  by (cases g) auto

text \<open>
  Claim C5. Parsing \<open>/node-create process\<close> gives the parameters \<open>type = "process"\<close>, and
  \<open>None\<close> for \<open>name\<close>, \<open>x\<close> and \<open>y\<close>. Whenever an input parses as \<open>flowline-create\<close> and its
  third capture group (the trailing type) took no part in the match, the parameter \<open>type\<close>
  is \<open>"sequence"\<close>; whenever an input parses as \<open>task-create\<close> and its third capture group
  (the priority) took no part, the parameter \<open>priority\<close> is \<open>"normal"\<close>.
\<close>

theorem defaults_filled:
  "dict_get (parse_workflow_command WorkflowCommandServer ''/node-create process'') ''parameters''
     = PDict [(''type'', PStr ''process''), (''name'', PNone), (''x'', PNone), (''y'', PNone)]
   \<and> (\<forall>s gs. dict_get (parse_workflow_command WorkflowCommandServer s) ''command_type''
                 = PStr ''flowline-create''
            \<and> dict_get (parse_workflow_command WorkflowCommandServer s) ''raw_params'' = PList gs
            \<and> gs ! 2 = PNone
        \<longrightarrow> (\<exists>p. dict_get (parse_workflow_command WorkflowCommandServer s) ''parameters'' = PDict p
                 \<and> dict_get p ''type'' = PStr ''sequence''))
   \<and> (\<forall>s gs. dict_get (parse_workflow_command WorkflowCommandServer s) ''command_type''
                 = PStr ''task-create''
            \<and> dict_get (parse_workflow_command WorkflowCommandServer s) ''raw_params'' = PList gs
            \<and> gs ! 2 = PNone
        \<longrightarrow> (\<exists>p. dict_get (parse_workflow_command WorkflowCommandServer s) ''parameters'' = PDict p
                 \<and> dict_get p ''priority'' = PStr ''normal''))"
proof (intro conjI allI impI)
  show "dict_get (parse_workflow_command WorkflowCommandServer ''/node-create process'') ''parameters''
     = PDict [(''type'', PStr ''process''), (''name'', PNone), (''x'', PNone), (''y'', PNone)]"
    by code_simp
next
  fix s gs
  assume h: "dict_get (parse_workflow_command WorkflowCommandServer s) ''command_type''
                 = PStr ''flowline-create''
            \<and> dict_get (parse_workflow_command WorkflowCommandServer s) ''raw_params'' = PList gs
            \<and> gs ! 2 = PNone"
  from default_from_groups[of WorkflowCommandServer s "''flowline-create''" gs] h
  obtain groups where g: "gs = map opt_str groups" "3 \<le> length groups"
    and p: "dict_get (parse_workflow_command WorkflowCommandServer s) ''parameters''
               = PDict (fst (snd (wf_extract ''flowline-create'' groups)))"
    by (auto simp: wf_extract_flowline)
  from h g have "groups ! 2 = None" by (simp add: opt_str_PNone)
  with p show "\<exists>p. dict_get (parse_workflow_command WorkflowCommandServer s) ''parameters'' = PDict p
                 \<and> dict_get p ''type'' = PStr ''sequence''"
    by (simp add: wf_extract_flowline dict_simps)
next
  fix s gs
  assume h: "dict_get (parse_workflow_command WorkflowCommandServer s) ''command_type''
                 = PStr ''task-create''
            \<and> dict_get (parse_workflow_command WorkflowCommandServer s) ''raw_params'' = PList gs
            \<and> gs ! 2 = PNone"
  from default_from_groups[of WorkflowCommandServer s "''task-create''" gs] h
  obtain groups where g: "gs = map opt_str groups" "3 \<le> length groups"
    and p: "dict_get (parse_workflow_command WorkflowCommandServer s) ''parameters''
               = PDict (fst (snd (wf_extract ''task-create'' groups)))"
    by (auto simp: wf_extract_task_create)
  from h g have "groups ! 2 = None" by (simp add: opt_str_PNone)
  with p show "\<exists>p. dict_get (parse_workflow_command WorkflowCommandServer s) ''parameters'' = PDict p
                 \<and> dict_get p ''priority'' = PStr ''normal''"
    by (simp add: wf_extract_task_create dict_simps)
qed

theorem defaults_filled_witness:
  "(\<exists>p. dict_get (parse_workflow_command WorkflowCommandServer
            (''/connect '' @ [dq] @ ''A'' @ [dq] @ '' '' @ [dq] @ ''B'' @ [dq])) ''parameters'' = PDict p
        \<and> dict_get p ''type'' = PStr ''sequence'')
   \<and> (\<exists>p. dict_get (parse_workflow_command WorkflowCommandServer
            (''/task-create '' @ [dq] @ ''T'' @ [dq])) ''parameters'' = PDict p
        \<and> dict_get p ''priority'' = PStr ''normal'')"
proof -
  have h1: "dict_get (parse_workflow_command WorkflowCommandServer
            (''/connect '' @ [dq] @ ''A'' @ [dq] @ '' '' @ [dq] @ ''B'' @ [dq])) ''command_type''
              = PStr ''flowline-create''
          \<and> dict_get (parse_workflow_command WorkflowCommandServer
            (''/connect '' @ [dq] @ ''A'' @ [dq] @ '' '' @ [dq] @ ''B'' @ [dq])) ''raw_params''
              = PList [PStr ''A'', PStr ''B'', PNone]
          \<and> [PStr ''A'', PStr ''B'', PNone] ! 2 = PNone"
    by code_simp
  have h2: "dict_get (parse_workflow_command WorkflowCommandServer
            (''/task-create '' @ [dq] @ ''T'' @ [dq])) ''command_type'' = PStr ''task-create''
          \<and> dict_get (parse_workflow_command WorkflowCommandServer
            (''/task-create '' @ [dq] @ ''T'' @ [dq])) ''raw_params'' = PList [PStr ''T'', PNone, PNone]
          \<and> [PStr ''T'', PNone, PNone] ! 2 = PNone"
    by code_simp
  from defaults_filled h1 h2 show ?thesis by blast
qed

subsection \<open>Validation of enumerated parameters\<close>

lemma dict_get_default_of_get:
  "dict_get d k = PDict p \<Longrightarrow> dict_get_default d k dflt = PDict p"
  by (auto simp: dict_get_def dict_get_default_def split: option.splits)

lemma lookup_valid_wf:
  "lookup_valid WorkflowCommandServer ''node_types'' = Inr [''process'', ''decision'', ''terminal'', ''start'']"
  "lookup_valid WorkflowCommandServer ''flowline_types'' = Inr [''sequence'', ''conditional'', ''error'', ''parallel'']"
  "lookup_valid WorkflowCommandServer ''task_priorities'' = Inr [''low'', ''normal'', ''high'', ''urgent'']"
  "lookup_valid WorkflowCommandServer ''matrix_quadrants'' = Inr [''urgent-important'', ''urgent-not-important'',
        ''not-urgent-important'', ''not-urgent-not-important'']"
  by (simp_all add: lookup_valid_def WorkflowCommandServer_def wf_valid_values_def)

lemma reject_fields:
  "dict_get (reject [(''valid'', PBool True), (''errors'', PList []), (''warnings'', PList []), (''suggestions'', PList [])] msg) ''valid'' = PBool False"
  "reject [(''valid'', PBool True), (''errors'', PList []), (''warnings'', PList []), (''suggestions'', PList [])] msg
     = [(''valid'', PBool False), (''errors'', PList [PStr msg]), (''warnings'', PList []), (''suggestions'', PList [])]"
  by (simp_all add: reject_def append_item_def dict_simps)

lemma node_create_branch:
  assumes t: "dict_get p ''type'' = PStr v" "v \<noteq> []"
    and lk: "lookup_valid self ''node_types'' = Inr vs" and nin: "v \<notin> set vs"
    and vr0: "vr0 = [(''valid'', PBool True), (''errors'', PList []), (''warnings'', PList []), (''suggestions'', PList [])]"
    and rej: "rej = [(''valid'', PBool False), (''errors'', PList [PStr (invalid_msg ''node type'' (PStr v) ''types'' vs)]),
                     (''warnings'', PList []), (''suggestions'', PList [])]"
  shows "(\<exists>e. validate_branch self (PStr ''node-create'') (PDict p) vr0 = Inl e)
       \<or> validate_branch self (PStr ''node-create'') (PDict p) vr0 = Inr rej
       \<or> validate_branch self (PStr ''node-create'') (PDict p) vr0
            = Inr (append_item rej ''warnings'' (PStr ''Position outside typical canvas bounds''))"
    and "dict_get p ''x'' = PNone \<or> dict_get p ''y'' = PNone \<Longrightarrow>
           validate_branch self (PStr ''node-create'') (PDict p) vr0 = Inr rej"
proof -
  have r: "reject vr0 (invalid_msg ''node type'' (PStr v) ''types'' vs) = rej"
    unfolding vr0 rej by (rule reject_fields(2))
  have vb: "validate_branch self (PStr ''node-create'') (PDict p) vr0 =
     (let x = dict_get p ''x''; y = dict_get p ''y'';
           warned = append_item rej ''warnings'' (PStr ''Position outside typical canvas bounds'')
       in if x \<noteq> PNone \<and> y \<noteq> PNone then
            bindE (py_int_val x) (\<lambda>xi.
              if 0 \<le> xi \<and> xi \<le> 2000 then
                bindE (py_int_val y) (\<lambda>yi.
                  Inr (if 0 \<le> yi \<and> yi \<le> 2000 then rej else warned))
              else Inr warned)
          else Inr rej)"
    using t lk nin r by (simp add: validate_branch_def bindE_def Let_def)
  show "(\<exists>e. validate_branch self (PStr ''node-create'') (PDict p) vr0 = Inl e)
       \<or> validate_branch self (PStr ''node-create'') (PDict p) vr0 = Inr rej
       \<or> validate_branch self (PStr ''node-create'') (PDict p) vr0
            = Inr (append_item rej ''warnings'' (PStr ''Position outside typical canvas bounds''))"
    unfolding vb by (auto simp: Let_def bindE_def split: sum.splits)
  show "dict_get p ''x'' = PNone \<or> dict_get p ''y'' = PNone \<Longrightarrow>
           validate_branch self (PStr ''node-create'') (PDict p) vr0 = Inr rej"
    unfolding vb by (auto simp: Let_def)
qed

lemma row_cases:
  assumes row: "(ct, field, key, what, plural) \<in>
       {(''node-create'', ''type'', ''node_types'', ''node type'', ''types''),
        (''flowline-create'', ''type'', ''flowline_types'', ''flowline type'', ''types''),
        (''task-priority'', ''priority'', ''task_priorities'', ''priority'', ''priorities''),
        (''matrix-move'', ''quadrant'', ''matrix_quadrants'', ''matrix quadrant'', ''quadrants'')}"
  shows "(ct = ''node-create'' \<and> field = ''type'' \<and> key = ''node_types'' \<and> what = ''node type'' \<and> plural = ''types'')
    \<or> (ct = ''flowline-create'' \<and> field = ''type'' \<and> key = ''flowline_types'' \<and> what = ''flowline type'' \<and> plural = ''types'')
    \<or> (ct = ''task-priority'' \<and> field = ''priority'' \<and> key = ''task_priorities'' \<and> what = ''priority'' \<and> plural = ''priorities'')
    \<or> (ct = ''matrix-move'' \<and> field = ''quadrant'' \<and> key = ''matrix_quadrants'' \<and> what = ''matrix quadrant'' \<and> plural = ''quadrants'')"
  using row by (simp only: insert_iff empty_iff prod.inject simp_thms)

lemma validate_body_start:
  assumes wf: "truthy (dict_get cd ''is_workflow_command'')"
    and ct: "dict_get cd ''command_type'' = PStr ct"
    and ps: "dict_get cd ''parameters'' = PDict p"
  shows "validate_workflow_body self cd =
        bindE (validate_branch self (PStr ct) (PDict p)
                 [(''valid'', PBool True), (''errors'', PList []),
                  (''warnings'', PList []), (''suggestions'', PList [])])
          (\<lambda>vr. if truthy (dict_get vr ''valid'') then
              bindE (generate_workflow_suggestions (PStr ct) (PDict p)) (\<lambda>suggestions.
                Inr (dict_set vr ''suggestions'' (PList suggestions)))
            else Inr vr)"
  using wf ct dict_get_default_of_get[OF ps, of "PDict []"]
  by (simp add: validate_workflow_body_def Let_def)

lemma rejected_result:
  assumes "validate_workflow_body self cd =
        bindE (Inr (reject [(''valid'', PBool True), (''errors'', PList []),
                  (''warnings'', PList []), (''suggestions'', PList [])] msg)) f"
    and "\<And>vr. f vr = (if truthy (dict_get vr ''valid'') then g vr else Inr vr)"
  shows "validate_workflow_command self cd =
           [(''valid'', PBool False), (''errors'', PList [PStr msg]),
            (''warnings'', PList []), (''suggestions'', PList [])]"
  using assms by (simp add: validate_workflow_command_def bindE_def reject_fields(2) dict_simps)

lemma enum_node_create:
  assumes wf: "truthy (dict_get cd ''is_workflow_command'')"
    and ct: "dict_get cd ''command_type'' = PStr ''node-create''"
    and ps: "dict_get cd ''parameters'' = PDict p"
    and v: "dict_get p ''type'' = PStr v" "v \<noteq> []"
    and vs: "lookup_valid self ''node_types'' = Inr vs" "v \<notin> set vs"
  shows "dict_get (validate_workflow_command self cd) ''valid'' = PBool False"
    and "dict_get p ''x'' = PNone \<or> dict_get p ''y'' = PNone \<Longrightarrow>
           validate_workflow_command self cd =
              [(''valid'', PBool False),
               (''errors'', PList [PStr (invalid_msg ''node type'' (PStr v) ''types'' vs)]),
               (''warnings'', PList []), (''suggestions'', PList [])]"
proof -
  define vr0 where "vr0 = [(''valid'', PBool True), (''errors'', PList []),
      (''warnings'', PList []), (''suggestions'', PList [])]"
  define rej where "rej = [(''valid'', PBool False),
      (''errors'', PList [PStr (invalid_msg ''node type'' (PStr v) ''types'' vs)]),
      (''warnings'', PList []), (''suggestions'', PList [])]"
  note br = node_create_branch[OF v vs vr0_def rej_def]
  note body = validate_body_start[OF wf ct ps, of self, folded vr0_def]
  show "dict_get (validate_workflow_command self cd) ''valid'' = PBool False"
    using br(1) unfolding validate_workflow_command_def body
    by (auto simp: bindE_def rej_def append_item_def dict_simps)
  show "dict_get p ''x'' = PNone \<or> dict_get p ''y'' = PNone \<Longrightarrow>
           validate_workflow_command self cd =
              [(''valid'', PBool False),
               (''errors'', PList [PStr (invalid_msg ''node type'' (PStr v) ''types'' vs)]),
               (''warnings'', PList []), (''suggestions'', PList [])]"
    using br(2) unfolding validate_workflow_command_def body
    by (simp add: bindE_def rej_def dict_simps)
qed

lemma enum_flowline_create:
  assumes wf: "truthy (dict_get cd ''is_workflow_command'')"
    and ct: "dict_get cd ''command_type'' = PStr ''flowline-create''"
    and ps: "dict_get cd ''parameters'' = PDict p"
    and v: "dict_get p ''type'' = PStr v"
    and vs: "lookup_valid self ''flowline_types'' = Inr vs" "v \<notin> set vs"
  shows "validate_workflow_command self cd =
              [(''valid'', PBool False),
               (''errors'', PList [PStr (invalid_msg ''flowline type'' (PStr v) ''types'' vs)]),
               (''warnings'', PList []), (''suggestions'', PList [])]"
proof -
  from v have t: "dict_get_default p ''type'' (PStr ''sequence'') = PStr v"
    by (auto simp: dict_get_def dict_get_default_def split: option.splits)
  show ?thesis
    by (rule rejected_result[where f = "\<lambda>vr. if truthy (dict_get vr ''valid'') then
              bindE (generate_workflow_suggestions (PStr ''flowline-create'') (PDict p)) (\<lambda>suggestions.
                Inr (dict_set vr ''suggestions'' (PList suggestions)))
            else Inr vr"])
       (simp_all add: validate_body_start[OF wf ct ps] validate_branch_def bindE_def t vs Let_def)
qed

lemma enum_task_priority:
  assumes wf: "truthy (dict_get cd ''is_workflow_command'')"
    and ct: "dict_get cd ''command_type'' = PStr ''task-priority''"
    and ps: "dict_get cd ''parameters'' = PDict p"
    and v: "dict_get p ''priority'' = PStr v" "v \<noteq> []"
    and vs: "lookup_valid self ''task_priorities'' = Inr vs" "v \<notin> set vs"
  shows "validate_workflow_command self cd =
              [(''valid'', PBool False),
               (''errors'', PList [PStr (invalid_msg ''priority'' (PStr v) ''priorities'' vs)]),
               (''warnings'', PList []), (''suggestions'', PList [])]"
  by (rule rejected_result[where f = "\<lambda>vr. if truthy (dict_get vr ''valid'') then
              bindE (generate_workflow_suggestions (PStr ''task-priority'') (PDict p)) (\<lambda>suggestions.
                Inr (dict_set vr ''suggestions'' (PList suggestions)))
            else Inr vr"])
     (simp_all add: validate_body_start[OF wf ct ps] validate_branch_def bindE_def v vs Let_def)

lemma enum_matrix_move:
  assumes wf: "truthy (dict_get cd ''is_workflow_command'')"
    and ct: "dict_get cd ''command_type'' = PStr ''matrix-move''"
    and ps: "dict_get cd ''parameters'' = PDict p"
    and v: "dict_get p ''quadrant'' = PStr v" "v \<noteq> []"
    and vs: "lookup_valid self ''matrix_quadrants'' = Inr vs" "v \<notin> set vs"
  shows "validate_workflow_command self cd =
              [(''valid'', PBool False),
               (''errors'', PList [PStr (invalid_msg ''matrix quadrant'' (PStr v) ''quadrants'' vs)]),
               (''warnings'', PList []), (''suggestions'', PList [])]"
  by (rule rejected_result[where f = "\<lambda>vr. if truthy (dict_get vr ''valid'') then
              bindE (generate_workflow_suggestions (PStr ''matrix-move'') (PDict p)) (\<lambda>suggestions.
                Inr (dict_set vr ''suggestions'' (PList suggestions)))
            else Inr vr"])
     (simp_all add: validate_body_start[OF wf ct ps] validate_branch_def bindE_def v vs Let_def)

text \<open>
  Claim C7, as amended. For the four checks the validator makes (the \<open>type\<close> of
  \<open>node-create\<close>, the \<open>type\<close> of \<open>flowline-create\<close>, the \<open>priority\<close> of \<open>task-priority\<close> and
  the \<open>quadrant\<close> of \<open>matrix-move\<close>), a non-empty string outside the allowed set makes the
  result invalid, and the result carries the error message naming the allowed set and no
  warning. For \<open>node-create\<close> the message is stated when a coordinate is absent, since the
  position check that follows converts the coordinates to integers and may warn.
\<close>

theorem enum_violation_is_error:
  assumes wf: "truthy (dict_get cd ''is_workflow_command'')"
    and ct: "dict_get cd ''command_type'' = PStr ct"
    and ps: "dict_get cd ''parameters'' = PDict p"
    and row: "(ct, field, key, what, plural) \<in>
       {(''node-create'', ''type'', ''node_types'', ''node type'', ''types''),
        (''flowline-create'', ''type'', ''flowline_types'', ''flowline type'', ''types''),
        (''task-priority'', ''priority'', ''task_priorities'', ''priority'', ''priorities''),
        (''matrix-move'', ''quadrant'', ''matrix_quadrants'', ''matrix quadrant'', ''quadrants'')}"
    and v: "dict_get p field = PStr v" "v \<noteq> []"
    and vs: "map_of (valid_values WorkflowCommandServer) key = Some vs" "v \<notin> set vs"
  shows "dict_get (validate_workflow_command WorkflowCommandServer cd) ''valid'' = PBool False
       \<and> ((ct = ''node-create'' \<longrightarrow> dict_get p ''x'' = PNone \<or> dict_get p ''y'' = PNone) \<longrightarrow>
            validate_workflow_command WorkflowCommandServer cd =
              [(''valid'', PBool False),
               (''errors'', PList [PStr (invalid_msg what (PStr v) plural vs)]),
               (''warnings'', PList []), (''suggestions'', PList [])])"
proof -
  have lk: "lookup_valid WorkflowCommandServer key = Inr vs"
    using vs(1) by (simp add: lookup_valid_def)
  from row_cases[OF row] show ?thesis
  proof (elim disjE conjE)
    assume c: "ct = ''node-create''" "field = ''type''" "key = ''node_types''"
      "what = ''node type''" "plural = ''types''"
    note n = enum_node_create[OF wf ct[unfolded c] ps v[unfolded c] lk[unfolded c] vs(2)]
    show ?thesis unfolding c using n by blast
  next
    assume c: "ct = ''flowline-create''" "field = ''type''" "key = ''flowline_types''"
      "what = ''flowline type''" "plural = ''types''"
    note n = enum_flowline_create[OF wf ct[unfolded c] ps v(1)[unfolded c] lk[unfolded c] vs(2)]
    show ?thesis unfolding c n by (simp add: dict_simps)
  next
    assume c: "ct = ''task-priority''" "field = ''priority''" "key = ''task_priorities''"
      "what = ''priority''" "plural = ''priorities''"
    note n = enum_task_priority[OF wf ct[unfolded c] ps v[unfolded c] lk[unfolded c] vs(2)]
    show ?thesis unfolding c n by (simp add: dict_simps)
  next
    assume c: "ct = ''matrix-move''" "field = ''quadrant''" "key = ''matrix_quadrants''"
      "what = ''matrix quadrant''" "plural = ''quadrants''"
    note n = enum_matrix_move[OF wf ct[unfolded c] ps v[unfolded c] lk[unfolded c] vs(2)]
    show ?thesis unfolding c n by (simp add: dict_simps)
  qed
qed

theorem enum_violation_is_error_witness:
  "validate_workflow_command WorkflowCommandServer
     (parse_workflow_command WorkflowCommandServer ''/task-priority task1 extreme'') =
   [(''valid'', PBool False),
    (''errors'', PList [PStr (''Invalid priority '' @ [sq] @ ''extreme'' @ [sq]
                             @ ''. Valid priorities: low, normal, high, urgent'')]),
    (''warnings'', PList []), (''suggestions'', PList [])]"
proof -
  let ?cd = "parse_workflow_command WorkflowCommandServer ''/task-priority task1 extreme''"
  let ?p = "[(''task'', PStr ''task1''), (''priority'', PStr ''extreme'')]"
  let ?vs = "[''low'', ''normal'', ''high'', ''urgent'']"
  have 1: "truthy (dict_get ?cd ''is_workflow_command'')" by code_simp
  have 2: "dict_get ?cd ''command_type'' = PStr ''task-priority''" by code_simp
  have 3: "dict_get ?cd ''parameters'' = PDict ?p" by code_simp
  have 4: "(''task-priority'', ''priority'', ''task_priorities'', ''priority'', ''priorities'') \<in>
       {(''node-create'', ''type'', ''node_types'', ''node type'', ''types''),
        (''flowline-create'', ''type'', ''flowline_types'', ''flowline type'', ''types''),
        (''task-priority'', ''priority'', ''task_priorities'', ''priority'', ''priorities''),
        (''matrix-move'', ''quadrant'', ''matrix_quadrants'', ''matrix quadrant'', ''quadrants'')}"
    by simp
  have 5: "dict_get ?p ''priority'' = PStr ''extreme''" by code_simp
  have 6: "''extreme'' \<noteq> []" by simp
  have 7: "map_of (valid_values WorkflowCommandServer) ''task_priorities'' = Some ?vs" by code_simp
  have 8: "''extreme'' \<notin> set ?vs" by simp
  from enum_violation_is_error[OF 1 2 3 4 5 6 7 8] show ?thesis
    by (simp add: invalid_msg_def)
qed

text \<open>
  Claim C7 as stated fails for an enumerated parameter the validator does not check: the
  priority of \<open>task-create\<close> may be any word, and validation passes without an error.
\<close>

theorem task_create_priority_unchecked:
  "dict_get (parse_workflow_command WorkflowCommandServer
      (''/task-create '' @ [dq] @ ''T'' @ [dq] @ '' '' @ [dq] @ ''N'' @ [dq] @ '' extreme''))
      ''parameters''
     = PDict [(''name'', PStr ''T''), (''node'', PStr ''N''), (''priority'', PStr ''extreme'')]
   \<and> lookup_valid WorkflowCommandServer ''task_priorities''
         = Inr [''low'', ''normal'', ''high'', ''urgent'']
   \<and> validate_workflow_command WorkflowCommandServer
        (parse_workflow_command WorkflowCommandServer
          (''/task-create '' @ [dq] @ ''T'' @ [dq] @ '' '' @ [dq] @ ''N'' @ [dq] @ '' extreme''))
     = [(''valid'', PBool True), (''errors'', PList []), (''warnings'', PList []),
        (''suggestions'', PList [])]"
  by code_simp


subsection \<open>What a match consumes and captures\<close>









lemma first_match_first:
  assumes "\<forall>(n', p') \<in> set ps1. re_match True p' s = None" and "re_match True pat s = Some g"
  shows "first_match (ps1 @ (n, pat) # ps2) s = Some (n, g)"
  using assms by (induction ps1) auto









subsection \<open>The quadrant of a parsed matrix-move command\<close>












subsection \<open>Strings: substring test, strip and split\<close>
















subsection \<open>Slash inputs that match no workflow pattern\<close>




subsection \<open>The parsers never let an exception escape\<close>





















subsection \<open>Several rules matching one input\<close>

text \<open>
  Claim C1, as amended. Both parsers return the result of the first rule, in the order of
  the pattern table, whose pattern matches the stripped input: when the rules before a
  rule \<open>n\<close> do not match and \<open>n\<close> matches with groups \<open>g\<close>, the result is the command parsed
  from \<open>n\<close> and \<open>g\<close>, whatever the later rules of the table match.
\<close>

theorem first_match_wins:
  assumes "startswith (py_strip s) ''/''"
    and "command_patterns self = ps1 @ (n, pat) # ps2"
    and "\<forall>(n', p') \<in> set ps1. re_match True p' (py_strip s) = None"
    and "re_match True pat (py_strip s) = Some g"
  shows "(\<forall>pc. parse_workflow_match n g = Inr pc \<longrightarrow>
            parse_workflow_command self s = dict_set pc ''original_input'' (PStr (py_strip s))
          \<and> dict_get (parse_workflow_command self s) ''command_type'' = PStr n)
       \<and> (\<forall>pc. parse_command_match n g = Inr pc \<longrightarrow>
            parse_chat_input self s = dict_set pc ''original_input'' (PStr (py_strip s))
          \<and> dict_get (parse_chat_input self s) ''command_type'' = PStr n)"
proof -
  from first_match_first[OF assms(3,4)] assms(2)
  have fm: "first_match (command_patterns self) (py_strip s) = Some (n, g)" by simp
  show ?thesis
  proof (intro conjI allI impI)
    fix pc assume pc: "parse_workflow_match n g = Inr pc"
    with assms(1) fm
    show r: "parse_workflow_command self s = dict_set pc ''original_input'' (PStr (py_strip s))"
      by (simp add: parse_workflow_command_def parse_workflow_body_def Let_def bindE_def)
    from parse_workflow_match_fields(1)[OF pc]
    show "dict_get (parse_workflow_command self s) ''command_type'' = PStr n"
      unfolding r by (simp add: dict_simps)
  next
    fix pc assume pc: "parse_command_match n g = Inr pc"
    with assms(1) fm
    show r: "parse_chat_input self s = dict_set pc ''original_input'' (PStr (py_strip s))"
      by (simp add: parse_chat_input_def parse_chat_body_def Let_def bindE_def)
    from pc have "dict_get pc ''command_type'' = PStr n"
      by (auto simp: parse_command_match_def bindE_def Let_def dict_simps
          split: sum.splits prod.splits option.splits)
    then show "dict_get (parse_chat_input self s) ''command_type'' = PStr n"
      unfolding r by (simp add: dict_simps)
  qed
qed

text \<open>
  Claim C1 as stated fails: with a table holding the \<open>flowline-create\<close> pattern and a
  catch-all pattern, both match \<open>/connect "A" "B"\<close>, and the parsers return the
  \<open>flowline-create\<close> command alone; the result has no entry that names the second rule.
\<close>

theorem ambiguous_input_first_rule_only:
  "re_match True
     (seqs [Lit CHR ''/'', Alt (name2 ''flowline'' ''create'') (lits ''connect''),
            sp, quoted 1, sp, quoted 2, Opt (seqs [sp, word 3]), Eol])
     (''/connect '' @ [dq] @ ''A'' @ [dq] @ '' '' @ [dq] @ ''B'' @ [dq])
     = Some [Some ''A'', Some ''B'', None]
   \<and> re_match True (seqs [Lit CHR ''/'', rest 1, Eol])
     (''/connect '' @ [dq] @ ''A'' @ [dq] @ '' '' @ [dq] @ ''B'' @ [dq])
     = Some [Some (''connect '' @ [dq] @ ''A'' @ [dq] @ '' '' @ [dq] @ ''B'' @ [dq])]
   \<and> parse_workflow_command
       (WorkflowCommandServer\<lparr>command_patterns :=
          [(''flowline-create'',
            seqs [Lit CHR ''/'', Alt (name2 ''flowline'' ''create'') (lits ''connect''),
                  sp, quoted 1, sp, quoted 2, Opt (seqs [sp, word 3]), Eol]),
           (''catch-all'', seqs [Lit CHR ''/'', rest 1, Eol])]\<rparr>)
       (''/connect '' @ [dq] @ ''A'' @ [dq] @ '' '' @ [dq] @ ''B'' @ [dq])
     = [(''is_workflow_command'', PBool True), (''command_type'', PStr ''flowline-create''),
        (''parameters'', PDict [(''source'', PStr ''A''), (''target'', PStr ''B''),
                               (''type'', PStr ''sequence'')]),
        (''raw_params'', PList [PStr ''A'', PStr ''B'', PNone]),
        (''action'', PStr ''create_flowline''),
        (''original_input'', PStr (''/connect '' @ [dq] @ ''A'' @ [dq] @ '' '' @ [dq] @ ''B'' @ [dq]))]
   \<and> parse_chat_input
       (ChatCommandServer\<lparr>command_patterns :=
          [(''flowline-create'',
            seqs [Lit CHR ''/'', Alt (name2 ''flowline'' ''create'') (lits ''connect''),
                  sp, quoted 1, sp, quoted 2, Opt (seqs [sp, word 3]), Eol]),
           (''catch-all'', seqs [Lit CHR ''/'', rest 1, Eol])]\<rparr>)
       (''/connect '' @ [dq] @ ''A'' @ [dq] @ '' '' @ [dq] @ ''B'' @ [dq])
     = [(''is_command'', PBool True), (''command_type'', PStr ''flowline-create''),
        (''parameters'', PDict []),
        (''raw_params'', PList [PStr ''A'', PStr ''B'', PNone]),
        (''original_input'', PStr (''/connect '' @ [dq] @ ''A'' @ [dq] @ '' '' @ [dq] @ ''B'' @ [dq]))]"
  by code_simp

theorem first_match_wins_witness:
  "dict_get (parse_workflow_command
       (WorkflowCommandServer\<lparr>command_patterns :=
          [(''select-none'', seqs [cmd2 ''select'' ''none'', Eol]),
           (''select'', seqs [lits ''/select'', sp, rest 1, Eol]),
           (''catch-all'', seqs [Lit CHR ''/'', rest 1, Eol])]\<rparr>)
       ''/select all'') ''command_type'' = PStr ''select''
   \<and> dict_get (parse_chat_input
       (WorkflowCommandServer\<lparr>command_patterns :=
          [(''select-none'', seqs [cmd2 ''select'' ''none'', Eol]),
           (''select'', seqs [lits ''/select'', sp, rest 1, Eol]),
           (''catch-all'', seqs [Lit CHR ''/'', rest 1, Eol])]\<rparr>)
       ''/select all'') ''command_type'' = PStr ''select''"
proof -
  let ?self = "WorkflowCommandServer\<lparr>command_patterns :=
          [(''select-none'', seqs [cmd2 ''select'' ''none'', Eol]),
           (''select'', seqs [lits ''/select'', sp, rest 1, Eol]),
           (''catch-all'', seqs [Lit CHR ''/'', rest 1, Eol])]\<rparr>"
  have 1: "startswith (py_strip ''/select all'') ''/''" by code_simp
  have 2: "command_patterns ?self =
      [(''select-none'', seqs [cmd2 ''select'' ''none'', Eol])]
      @ (''select'', seqs [lits ''/select'', sp, rest 1, Eol])
      # [(''catch-all'', seqs [Lit CHR ''/'', rest 1, Eol])]" by simp
  have 3: "\<forall>(n', p') \<in> set [(''select-none'', seqs [cmd2 ''select'' ''none'', Eol])].
             re_match True p' (py_strip ''/select all'') = None" by code_simp
  have 4: "re_match True (seqs [lits ''/select'', sp, rest 1, Eol]) (py_strip ''/select all'')
             = Some [Some ''all'']" by code_simp
  have 5: "re_match True (seqs [Lit CHR ''/'', rest 1, Eol]) (py_strip ''/select all'') \<noteq> None"
    by code_simp
  have 6: "parse_workflow_match ''select'' [Some ''all''] =
      Inr [(''is_workflow_command'', PBool True), (''command_type'', PStr ''select''),
           (''parameters'', PDict [(''target'', PStr ''all'')]),
           (''raw_params'', PList [PStr ''all'']), (''action'', PStr ''select_element'')]"
    by code_simp
  have 7: "parse_command_match ''select'' [Some ''all''] =
      Inr [(''is_command'', PBool True), (''command_type'', PStr ''select''),
           (''parameters'', PDict []), (''raw_params'', PList [PStr ''all''])]"
    by code_simp
  from first_match_wins[OF 1 2 3 4] 6 7 show ?thesis by blast
qed

subsection \<open>The suggestion for an unknown command\<close>

lemma common_chars_card: "common_chars a b = card (set a \<inter> set b)"
proof -
  have "set (filter (\<lambda>c. c \<in> set b) a) = set a \<inter> set b" by auto
  then show ?thesis
    by (simp add: common_chars_def length_remdups_card_conv)
qed

lemma similarity_spec:
  "clean cmd \<noteq> [] \<Longrightarrow> similarity (clean u) (clean cmd) = Inr (spec_similarity u cmd)"
  by (simp add: similarity_def spec_similarity_def common_chars_card Let_def)

lemma suggest_loop_spec:
  assumes "\<forall>cmd \<in> set cmds. clean cmd \<noteq> []"
  shows "\<exists>bm' bs'. suggest_loop (clean u) cmds (bm, bs) = Inr (bm', bs') \<and>
      ((bm' = bm \<and> bs' = bs
          \<and> (\<forall>x \<in> set cmds. \<not> (spec_similarity u x > bs \<and> spec_similarity u x > 3 / 10)))
       \<or> (\<exists>pre c post. cmds = pre @ c # post \<and> bm' = Some c \<and> bs' = spec_similarity u c
            \<and> spec_similarity u c > bs \<and> spec_similarity u c > 3 / 10
            \<and> (\<forall>x \<in> set pre. spec_similarity u x < spec_similarity u c)
            \<and> (\<forall>x \<in> set post. spec_similarity u x \<le> spec_similarity u c)))"
  using assms
proof (induction cmds arbitrary: bm bs)
  case Nil
  then show ?case by simp
next
  case (Cons cmd cmds)
  let ?s = "spec_similarity u cmd"
  from Cons.prems have sim: "similarity (clean u) (clean cmd) = Inr ?s"
    by (simp add: similarity_spec)
  from Cons.prems have rest: "\<forall>cmd \<in> set cmds. clean cmd \<noteq> []" by simp
  show ?case
  proof (cases "?s > bs \<and> ?s > 3 / 10")
    case True
    then have step: "suggest_loop (clean u) (cmd # cmds) (bm, bs)
        = suggest_loop (clean u) cmds (Some cmd, ?s)"
      by (simp add: sim)
    from Cons.IH[OF rest, of "Some cmd" ?s] obtain bm' bs' where
      r: "suggest_loop (clean u) cmds (Some cmd, ?s) = Inr (bm', bs')"
      and d: "(bm' = Some cmd \<and> bs' = ?s
          \<and> (\<forall>x \<in> set cmds. \<not> (spec_similarity u x > ?s \<and> spec_similarity u x > 3 / 10)))
       \<or> (\<exists>pre c post. cmds = pre @ c # post \<and> bm' = Some c \<and> bs' = spec_similarity u c
            \<and> spec_similarity u c > ?s \<and> spec_similarity u c > 3 / 10
            \<and> (\<forall>x \<in> set pre. spec_similarity u x < spec_similarity u c)
            \<and> (\<forall>x \<in> set post. spec_similarity u x \<le> spec_similarity u c))"
      by blast
    from d have "\<exists>pre c post. cmd # cmds = pre @ c # post \<and> bm' = Some c
            \<and> bs' = spec_similarity u c
            \<and> spec_similarity u c > bs \<and> spec_similarity u c > 3 / 10
            \<and> (\<forall>x \<in> set pre. spec_similarity u x < spec_similarity u c)
            \<and> (\<forall>x \<in> set post. spec_similarity u x \<le> spec_similarity u c)"
    proof
      assume a: "bm' = Some cmd \<and> bs' = ?s
          \<and> (\<forall>x \<in> set cmds. \<not> (spec_similarity u x > ?s \<and> spec_similarity u x > 3 / 10))"
      with True have "\<forall>x \<in> set cmds. spec_similarity u x \<le> ?s" by force
      with a True show ?thesis
        by (intro exI[of _ "[]"] exI[of _ cmd] exI[of _ cmds]) simp
    next
      assume "\<exists>pre c post. cmds = pre @ c # post \<and> bm' = Some c \<and> bs' = spec_similarity u c
            \<and> spec_similarity u c > ?s \<and> spec_similarity u c > 3 / 10
            \<and> (\<forall>x \<in> set pre. spec_similarity u x < spec_similarity u c)
            \<and> (\<forall>x \<in> set post. spec_similarity u x \<le> spec_similarity u c)"
      then obtain pre c post where b: "cmds = pre @ c # post" "bm' = Some c"
        "bs' = spec_similarity u c" "spec_similarity u c > ?s" "spec_similarity u c > 3 / 10"
        "\<forall>x \<in> set pre. spec_similarity u x < spec_similarity u c"
        "\<forall>x \<in> set post. spec_similarity u x \<le> spec_similarity u c"
        by blast
      with True show ?thesis
        by (intro exI[of _ "cmd # pre"] exI[of _ c] exI[of _ post]) auto
    qed
    with step r show ?thesis by auto
  next
    case False
    then have step: "suggest_loop (clean u) (cmd # cmds) (bm, bs)
        = suggest_loop (clean u) cmds (bm, bs)"
      by (auto simp: sim)
    from Cons.IH[OF rest, of bm bs] obtain bm' bs' where
      r: "suggest_loop (clean u) cmds (bm, bs) = Inr (bm', bs')"
      and d: "(bm' = bm \<and> bs' = bs
          \<and> (\<forall>x \<in> set cmds. \<not> (spec_similarity u x > bs \<and> spec_similarity u x > 3 / 10)))
       \<or> (\<exists>pre c post. cmds = pre @ c # post \<and> bm' = Some c \<and> bs' = spec_similarity u c
            \<and> spec_similarity u c > bs \<and> spec_similarity u c > 3 / 10
            \<and> (\<forall>x \<in> set pre. spec_similarity u x < spec_similarity u c)
            \<and> (\<forall>x \<in> set post. spec_similarity u x \<le> spec_similarity u c))"
      by blast
    from d show ?thesis
    proof
      assume "bm' = bm \<and> bs' = bs
          \<and> (\<forall>x \<in> set cmds. \<not> (spec_similarity u x > bs \<and> spec_similarity u x > 3 / 10))"
      with False step r show ?thesis by auto
    next
      assume "\<exists>pre c post. cmds = pre @ c # post \<and> bm' = Some c \<and> bs' = spec_similarity u c
            \<and> spec_similarity u c > bs \<and> spec_similarity u c > 3 / 10
            \<and> (\<forall>x \<in> set pre. spec_similarity u x < spec_similarity u c)
            \<and> (\<forall>x \<in> set post. spec_similarity u x \<le> spec_similarity u c)"
      then obtain pre c post where b: "cmds = pre @ c # post" "bm' = Some c"
        "bs' = spec_similarity u c" "spec_similarity u c > bs" "spec_similarity u c > 3 / 10"
        "\<forall>x \<in> set pre. spec_similarity u x < spec_similarity u c"
        "\<forall>x \<in> set post. spec_similarity u x \<le> spec_similarity u c"
        by blast
      from False b(4,5) have "?s < spec_similarity u c" by auto
      with b have "cmd # cmds = (cmd # pre) @ c # post \<and> bm' = Some c
            \<and> bs' = spec_similarity u c
            \<and> spec_similarity u c > bs \<and> spec_similarity u c > 3 / 10
            \<and> (\<forall>x \<in> set (cmd # pre). spec_similarity u x < spec_similarity u c)
            \<and> (\<forall>x \<in> set post. spec_similarity u x \<le> spec_similarity u c)"
        by simp
      then have "\<exists>pre c post. cmd # cmds = pre @ c # post \<and> bm' = Some c
            \<and> bs' = spec_similarity u c
            \<and> spec_similarity u c > bs \<and> spec_similarity u c > 3 / 10
            \<and> (\<forall>x \<in> set pre. spec_similarity u x < spec_similarity u c)
            \<and> (\<forall>x \<in> set post. spec_similarity u x \<le> spec_similarity u c)"
        by blast
      with step r show ?thesis by auto
    qed
  qed
qed

text \<open>
  Claim C3, as amended. The score of a candidate is the number of distinct characters it
  shares with the unknown token, divided by the larger of the two lengths, both lowercased
  and without leading slashes. The suggestion is \<open>None\<close> when no key of the help table
  scores above 3/10; otherwise it is a key that scores above 3/10, higher than every key
  before it and at least as high as every key after it: the best score, the first key
  reaching it.
\<close>

theorem suggest_similar_best_first:
  assumes "\<forall>cmd \<in> set (map fst (command_descriptions self)). clean cmd \<noteq> []"
  shows "\<exists>r. suggest_similar_command self unknown = Inr r \<and>
     (case r of
        None \<Rightarrow> \<forall>cmd \<in> set (map fst (command_descriptions self)).
                  spec_similarity unknown cmd \<le> 3 / 10
      | Some c \<Rightarrow> \<exists>pre post. map fst (command_descriptions self) = pre @ c # post
            \<and> spec_similarity unknown c > 3 / 10
            \<and> (\<forall>x \<in> set pre. spec_similarity unknown x < spec_similarity unknown c)
            \<and> (\<forall>x \<in> set post. spec_similarity unknown x \<le> spec_similarity unknown c))"
proof -
  have nonneg: "\<And>x. spec_similarity unknown x \<ge> 0"
    by (simp add: spec_similarity_def)
  from suggest_loop_spec[OF assms, of unknown None 0] obtain bm' bs' where
    r: "suggest_loop (clean unknown) (map fst (command_descriptions self)) (None, 0)
          = Inr (bm', bs')"
    and d: "(bm' = None \<and> bs' = 0
          \<and> (\<forall>x \<in> set (map fst (command_descriptions self)).
                \<not> (spec_similarity unknown x > 0 \<and> spec_similarity unknown x > 3 / 10)))
       \<or> (\<exists>pre c post. map fst (command_descriptions self) = pre @ c # post \<and> bm' = Some c
            \<and> bs' = spec_similarity unknown c
            \<and> spec_similarity unknown c > 0 \<and> spec_similarity unknown c > 3 / 10
            \<and> (\<forall>x \<in> set pre. spec_similarity unknown x < spec_similarity unknown c)
            \<and> (\<forall>x \<in> set post. spec_similarity unknown x \<le> spec_similarity unknown c))"
    by blast
  from r have res: "suggest_similar_command self unknown = Inr bm'"
    by (simp add: suggest_similar_command_def bindE_def)
  from d show ?thesis
  proof
    assume a: "bm' = None \<and> bs' = 0
          \<and> (\<forall>x \<in> set (map fst (command_descriptions self)).
                \<not> (spec_similarity unknown x > 0 \<and> spec_similarity unknown x > 3 / 10))"
    have "\<forall>x \<in> set (map fst (command_descriptions self)). spec_similarity unknown x \<le> 3 / 10"
    proof
      fix x assume "x \<in> set (map fst (command_descriptions self))"
      with a have "\<not> (spec_similarity unknown x > 0 \<and> spec_similarity unknown x > 3 / 10)"
        by blast
      then show "spec_similarity unknown x \<le> 3 / 10" by (cases "spec_similarity unknown x > 0") auto
    qed
    with a res show ?thesis by simp
  next
    assume "\<exists>pre c post. map fst (command_descriptions self) = pre @ c # post \<and> bm' = Some c
            \<and> bs' = spec_similarity unknown c
            \<and> spec_similarity unknown c > 0 \<and> spec_similarity unknown c > 3 / 10
            \<and> (\<forall>x \<in> set pre. spec_similarity unknown x < spec_similarity unknown c)
            \<and> (\<forall>x \<in> set post. spec_similarity unknown x \<le> spec_similarity unknown c)"
    then obtain pre c post where "map fst (command_descriptions self) = pre @ c # post"
      "bm' = Some c" "spec_similarity unknown c > 3 / 10"
      "\<forall>x \<in> set pre. spec_similarity unknown x < spec_similarity unknown c"
      "\<forall>x \<in> set post. spec_similarity unknown x \<le> spec_similarity unknown c"
      by blast
    with res show ?thesis by auto
  qed
qed

text \<open>
  Claim C3 as stated fails on its example: the keys of the help tables carry the usage
  text, so \<open>/node-create <type> [name] [x,y]\<close> scores 9/31, below the threshold, and both
  servers suggest \<open>/select-none\<close>, which scores 6/11, for \<open>nod-create\<close>.
\<close>

theorem nod_create_suggestion_is_select_none:
  "suggest_similar_command WorkflowCommandServer ''nod-create'' = Inr (Some ''/select-none'')
   \<and> suggest_similar_command ChatCommandServer ''nod-create'' = Inr (Some ''/select-none'')
   \<and> (''/node-create <type> [name] [x,y]'', ''Create a new node'')
       \<in> set (command_descriptions WorkflowCommandServer)
   \<and> similarity (clean ''nod-create'') (clean ''/node-create <type> [name] [x,y]'') = Inr (9 / 31)
   \<and> similarity (clean ''nod-create'') (clean ''/select-none'') = Inr (6 / 11)"
  by code_simp

theorem suggest_similar_best_first_witness:
  "suggest_similar_command (WorkflowCommandServer\<lparr>command_descriptions :=
       [(''/task-create'', ''Create a new task''), (''/node-create'', ''Create a new node''),
        (''/node-delete'', ''Delete a node'')]\<rparr>) ''nod-create''
     = Inr (Some ''/node-create'')
   \<and> spec_similarity ''nod-create'' ''/task-create'' < spec_similarity ''nod-create'' ''/node-create''
   \<and> spec_similarity ''nod-create'' ''/node-delete'' \<le> spec_similarity ''nod-create'' ''/node-create''"
proof -
  let ?self = "WorkflowCommandServer\<lparr>command_descriptions :=
       [(''/task-create'', ''Create a new task''), (''/node-create'', ''Create a new node''),
        (''/node-delete'', ''Delete a node'')]\<rparr>"
  have h: "\<forall>cmd \<in> set (map fst (command_descriptions ?self)). clean cmd \<noteq> []"
    by code_simp
  have v: "suggest_similar_command ?self ''nod-create'' = Inr (Some ''/node-create'')"
    by code_simp
  have k: "map fst (command_descriptions ?self) = [''/task-create'', ''/node-create'', ''/node-delete'']"
    by simp
  from suggest_similar_best_first[OF h, of "''nod-create''"] v
  obtain pre post where
    d: "map fst (command_descriptions ?self) = pre @ ''/node-create'' # post"
    and p: "\<forall>x \<in> set pre. spec_similarity ''nod-create'' x < spec_similarity ''nod-create'' ''/node-create''"
      "\<forall>x \<in> set post. spec_similarity ''nod-create'' x \<le> spec_similarity ''nod-create'' ''/node-create''"
    by auto
  from d k have "pre = [''/task-create''] \<and> post = [''/node-delete'']"
    by (cases pre; cases "tl pre") (auto simp: Cons_eq_append_conv)
  with p v show ?thesis by simp
qed

subsection \<open>The note-worthiness score\<close>





subsection \<open>The filter expression parser\<close>



lemma rx_star_nonempty: "rx_star f st \<noteq> []"
  by (subst rx_star.simps) simp



















end
